theory Spec2Isabelle
  imports Main "HOL-Library.Word"
begin

unbundle bit_operations_syntax

section \<open>Pointers, faults and the dispatch log\<close>

text \<open>
  A C pointer (a \<^verbatim>\<open>void*\<close> or a function pointer) is an address; \<open>NULL\<close> is address 0.
  A call to \<^verbatim>\<open>mcu_panic()\<close> ends the worker process and is the fault \<open>Panic\<close>; an array
  access outside the array is undefined in C and is the fault \<open>Out_Of_Bounds\<close>.

  The handlers are code of the caller. The model records each invocation
  \<^verbatim>\<open>callback(context)\<close> in a log, together with the slot that dispatched it, and gives
  the handler no effect of its own on the slots.

  Two names of the source cannot be used here: the parameter \<^verbatim>\<open>id\<close> is \<open>tid\<close>, and the
  field \<^verbatim>\<open>context\<close> of a handler is \<open>cb_context\<close>. The two slot structures share field
  names, which are written with the name of their record in front.
\<close>

type_synonym ptr = nat

definition NULL :: ptr where
  "NULL = 0"

datatype fault = Panic | Out_Of_Bounds

datatype slot = Timer_Slot nat | Pin_Slot nat

datatype dispatch = Dispatch slot ptr ptr

section \<open>smtc\_hal\_lp\_timer.c: types\<close>

text \<open>
  \<^verbatim>\<open>hal_lp_timer_irq_t\<close> is declared in a header that is not among the sources; its two
  fields are those that \<^verbatim>\<open>hal_lp_timer_stop\<close> initialises. \<open>handle\<close> is the \<^verbatim>\<open>timer_t\<close> of the
  operating system.
\<close>

record hal_lp_timer_irq_t =
  cb_context :: ptr
  callback :: ptr

record lp_timer_t =
  signo :: int
  handle :: nat
  tmr_irq :: hal_lp_timer_irq_t
  blocked :: bool
  pending :: bool

text \<open>
  A \<^verbatim>\<open>struct timespec\<close> is the pair of its seconds and nanoseconds. \<^verbatim>\<open>ZERO\<close> comes from a
  header that is not among the sources and is taken to be the zero \<^verbatim>\<open>timespec\<close>.
\<close>

record itimerspec =
  it_value :: "32 word \<times> 32 word"
  it_interval :: "32 word \<times> 32 word"

definition ZERO :: "32 word \<times> 32 word" where
  "ZERO = (0, 0)"

section \<open>smtc\_hal\_gpio.c: types\<close>

text \<open>
  Modelled from the spec: the enumerations \<^verbatim>\<open>hal_gpio_irq_mode_t\<close> and
  \<^verbatim>\<open>hal_gpio_pull_mode_t\<close> are declared in a header that is not among the sources. The spec
  gives a pin slot the edge modes off, rising, falling and both. The constants carry the
  names that the sources use, in the order of the conversion arrays \<^verbatim>\<open>modes[]\<close> and
  \<^verbatim>\<open>pulls[]\<close> that they index, so that the edge mode off is the value 0.
\<close>

datatype hal_gpio_irq_mode_t =
  BSP_GPIO_IRQ_MODE_OFF
  | BSP_GPIO_IRQ_MODE_RISING
  | BSP_GPIO_IRQ_MODE_FALLING
  | BSP_GPIO_IRQ_MODE_RISING_FALLING

datatype hal_gpio_pull_mode_t =
  BSP_GPIO_PULL_MODE_NONE
  | BSP_GPIO_PULL_MODE_UP
  | BSP_GPIO_PULL_MODE_DOWN

text \<open>
  \<^verbatim>\<open>hal_gpio_irq_t\<close>, from the same header, has the three fields that the source reads and
  writes. A pin name is an unsigned 32-bit value.
\<close>

record hal_gpio_irq_t =
  pin :: "32 word"
  cb_context :: ptr
  callback :: ptr

text \<open>
  The slot holds a pointer to a descriptor that belongs to the caller: \<open>irq\<close> is its
  address, \<open>NULL\<close> when the slot has none. The descriptors themselves are in the memory
  \<open>irq_mem\<close> of the state below, so that a descriptor which two slots point to, or which
  the caller or \<^verbatim>\<open>hal_gpio_init_in\<close> writes, is one object.
\<close>

record gpio_t =
  irq :: ptr
  irq_mode :: hal_gpio_irq_mode_t
  blocked :: bool
  pending :: bool

section \<open>The state of the worker's HAL\<close>

text \<open>
  \<open>lptim\<close> and \<open>gpio\<close> are the two static arrays. \<open>irq_mem\<close> is the caller's memory that
  holds the pin descriptors: the descriptor at each address (the caller keeps a descriptor
  alive while a slot points to it, so reading through a stored pointer gives a descriptor).
  \<open>isr\<close> is the GPIO driver's own table: the edge mode under which \<^verbatim>\<open>gpio_irq_callback\<close> is
  registered for a pin, if it is. \<open>dispatched\<close> is the log of handler invocations, oldest
  first.
\<close>

record hal =
  lptim :: "lp_timer_t list"
  gpio :: "gpio_t list"
  irq_mem :: "ptr \<Rightarrow> hal_gpio_irq_t"
  isr :: "32 word \<Rightarrow> 8 word option"
  dispatched :: "dispatch list"

definition HAL_LP_TIMER_NB :: nat where
  "HAL_LP_TIMER_NB = 2"

text \<open>
  \<^verbatim>\<open>P_NUM\<close> is declared in a header outside the sources at hand: the model takes it from
  the length of the \<open>gpio\<close> array, which is declared \<^verbatim>\<open>gpio[P_NUM]\<close>.
\<close>

definition P_NUM :: "hal \<Rightarrow> nat" where
  "P_NUM s = length (gpio s)"

text \<open>
  Both arrays are static, and static storage is zero-initialised: every flag false, every
  pointer null, the edge mode off. \<open>hal_boot p_num\<close> is the state in which the worker
  starts, with \<open>p_num\<close> pin slots, no function registered with the driver, and
  descriptors that the caller has not written yet.
\<close>

definition lptim_zero :: lp_timer_t where
  "lptim_zero = \<lparr>signo = 0, handle = 0,
     tmr_irq = \<lparr>hal_lp_timer_irq_t.cb_context = NULL, hal_lp_timer_irq_t.callback = NULL\<rparr>,
     lp_timer_t.blocked = False, lp_timer_t.pending = False\<rparr>"

definition irq_zero :: hal_gpio_irq_t where
  "irq_zero = \<lparr>pin = 0, hal_gpio_irq_t.cb_context = NULL, hal_gpio_irq_t.callback = NULL\<rparr>"

definition gpio_zero :: gpio_t where
  "gpio_zero = \<lparr>irq = NULL, irq_mode = BSP_GPIO_IRQ_MODE_OFF,
     gpio_t.blocked = False, gpio_t.pending = False\<rparr>"

definition hal_boot :: "nat \<Rightarrow> hal" where
  "hal_boot p_num = \<lparr>lptim = replicate HAL_LP_TIMER_NB lptim_zero,
     gpio = replicate p_num gpio_zero, irq_mem = (\<lambda>_. irq_zero), isr = (\<lambda>_. None),
     dispatched = []\<rparr>"

section \<open>smtc\_hal\_lp\_timer.c: functions\<close>

text \<open>
  \<^verbatim>\<open>timer_settime\<close> belongs to the operating system: its return value is a parameter, a
  function of the timer's handle and of the \<^verbatim>\<open>itimerspec\<close> passed. \<^verbatim>\<open>hal_lp_timer_start\<close>
  copies the handler that its pointer argument designates; the model takes the copy.
\<close>

type_synonym timer_settime_t = "nat \<Rightarrow> itimerspec \<Rightarrow> int"

definition hal_lp_timer_start ::
  "timer_settime_t \<Rightarrow> nat \<Rightarrow> 32 word \<Rightarrow> hal_lp_timer_irq_t \<Rightarrow> hal \<Rightarrow> fault + hal" where
  "hal_lp_timer_start timer_settime tid milliseconds irq_arg s =
     (if \<not> tid < length (lptim s) then Inl Out_Of_Bounds
      else
        let s1 = s\<lparr>lptim := (lptim s)[tid := (lptim s ! tid)\<lparr>tmr_irq := irq_arg\<rparr>]\<rparr>;
            its = \<lparr>it_value = (milliseconds div 1000, milliseconds mod 1000 * 1000000),
                   it_interval = ZERO\<rparr>
        in if timer_settime (handle (lptim s1 ! tid)) its = - 1 then Inl Panic else Inr s1)"

definition hal_lp_timer_stop :: "timer_settime_t \<Rightarrow> nat \<Rightarrow> hal \<Rightarrow> fault + hal" where
  "hal_lp_timer_stop timer_settime tid s =
     (if \<not> tid < length (lptim s) then Inl Out_Of_Bounds
      else
        let s1 = s\<lparr>lptim := (lptim s)[tid := (lptim s ! tid)\<lparr>tmr_irq :=
                   \<lparr>hal_lp_timer_irq_t.cb_context = NULL, hal_lp_timer_irq_t.callback = NULL\<rparr>\<rparr>]\<rparr>;
            its = \<lparr>it_value = ZERO, it_interval = ZERO\<rparr>
        in if timer_settime (handle (lptim s1 ! tid)) its = - 1 then Inl Panic else Inr s1)"

definition hal_lp_timer_irq_enable :: "nat \<Rightarrow> hal \<Rightarrow> fault + hal" where
  "hal_lp_timer_irq_enable tid s =
     (if \<not> tid < length (lptim s) then Inl Out_Of_Bounds
      else
        let s1 = s\<lparr>lptim := (lptim s)[tid := (lptim s ! tid)\<lparr>lp_timer_t.blocked := False\<rparr>]\<rparr>;
            t = lptim s1 ! tid
        in if lp_timer_t.pending t \<and> hal_lp_timer_irq_t.callback (tmr_irq t) \<noteq> NULL
           then Inr (s1\<lparr>lptim := (lptim s1)[tid := t\<lparr>lp_timer_t.pending := False\<rparr>],
                       dispatched := dispatched s1 @
                         [Dispatch (Timer_Slot tid) (hal_lp_timer_irq_t.callback (tmr_irq t))
                            (hal_lp_timer_irq_t.cb_context (tmr_irq t))]\<rparr>)
           else Inr s1)"

definition hal_lp_timer_irq_disable :: "nat \<Rightarrow> hal \<Rightarrow> fault + hal" where
  "hal_lp_timer_irq_disable tid s =
     (if \<not> tid < length (lptim s) then Inl Out_Of_Bounds
      else Inr (s\<lparr>lptim := (lptim s)[tid := (lptim s ! tid)\<lparr>lp_timer_t.blocked := True\<rparr>]\<rparr>))"

text \<open>
  The signal handler: \<open>sival\<close> is the \<^verbatim>\<open>int\<close> carried by the signal, used as the index.
\<close>

definition pl_timer_handler :: "int \<Rightarrow> hal \<Rightarrow> fault + hal" where
  "pl_timer_handler sival s =
     (if \<not> (0 \<le> sival \<and> nat sival < length (lptim s)) then Inl Out_Of_Bounds
      else
        let tid = nat sival; t = lptim s ! tid
        in if lp_timer_t.blocked t
           then Inr (s\<lparr>lptim := (lptim s)[tid := t\<lparr>lp_timer_t.pending := True\<rparr>]\<rparr>)
           else if hal_lp_timer_irq_t.callback (tmr_irq t) \<noteq> NULL
           then Inr (s\<lparr>dispatched := dispatched s @
                         [Dispatch (Timer_Slot tid) (hal_lp_timer_irq_t.callback (tmr_irq t))
                            (hal_lp_timer_irq_t.cb_context (tmr_irq t))]\<rparr>)
           else Inr s)"

section \<open>smtc\_hal\_gpio.c: functions\<close>

text \<open>
  The pigpio driver is a collaborator: the return value of each of its calls is a
  parameter, a function of the call's arguments (for \<^verbatim>\<open>gpioSetISRFunc\<close> the pin, the edge
  and whether a function is passed). Its constants are those of \<^verbatim>\<open>pigpio.h\<close>. The
  parameters \<^verbatim>\<open>pin\<close> and \<^verbatim>\<open>value\<close> of the source are \<open>p\<close> and \<open>v\<close>.
\<close>

record pigpio =
  gpioWrite :: "32 word \<Rightarrow> 32 word \<Rightarrow> int"
  gpioSetPullUpDown :: "32 word \<Rightarrow> 32 word \<Rightarrow> int"
  gpioSetMode :: "32 word \<Rightarrow> 32 word \<Rightarrow> int"
  gpioSetISRFunc :: "32 word \<Rightarrow> 8 word \<Rightarrow> bool \<Rightarrow> int"

definition PI_CLEAR :: "32 word" where "PI_CLEAR = 0"
definition PI_SET :: "32 word" where "PI_SET = 1"
definition PI_INPUT :: "32 word" where "PI_INPUT = 0"
definition PI_OUTPUT :: "32 word" where "PI_OUTPUT = 1"
definition PI_PUD_OFF :: "32 word" where "PI_PUD_OFF = 0"
definition PI_PUD_DOWN :: "32 word" where "PI_PUD_DOWN = 1"
definition PI_PUD_UP :: "32 word" where "PI_PUD_UP = 2"
definition RISING_EDGE :: "8 word" where "RISING_EDGE = 0"
definition FALLING_EDGE :: "8 word" where "FALLING_EDGE = 1"
definition EITHER_EDGE :: "8 word" where "EITHER_EDGE = 2"
definition OFF :: "8 word" where "OFF = 3"

text \<open>
  The conversion arrays \<^verbatim>\<open>modes[]\<close> and \<^verbatim>\<open>pulls[]\<close>, indexed by the enumerations in
  their declaration order.
\<close>

fun modes :: "hal_gpio_irq_mode_t \<Rightarrow> 8 word" where
  "modes BSP_GPIO_IRQ_MODE_OFF = OFF"
| "modes BSP_GPIO_IRQ_MODE_RISING = RISING_EDGE"
| "modes BSP_GPIO_IRQ_MODE_FALLING = FALLING_EDGE"
| "modes BSP_GPIO_IRQ_MODE_RISING_FALLING = EITHER_EDGE"

fun pulls :: "hal_gpio_pull_mode_t \<Rightarrow> 32 word" where
  "pulls BSP_GPIO_PULL_MODE_NONE = PI_PUD_OFF"
| "pulls BSP_GPIO_PULL_MODE_UP = PI_PUD_UP"
| "pulls BSP_GPIO_PULL_MODE_DOWN = PI_PUD_DOWN"

definition and_then :: "fault + 'a \<Rightarrow> ('a \<Rightarrow> fault + 'b) \<Rightarrow> fault + 'b" where
  "and_then r f = (case r of Inl e \<Rightarrow> Inl e | Inr x \<Rightarrow> f x)"

definition hal_gpio_set_value :: "pigpio \<Rightarrow> 32 word \<Rightarrow> 32 word \<Rightarrow> hal \<Rightarrow> fault + hal" where
  "hal_gpio_set_value drv p v s =
     (if gpioWrite drv p (if v \<noteq> 0 then PI_SET else PI_CLEAR) \<noteq> 0 then Inl Panic else Inr s)"

definition gpio_init ::
  "pigpio \<Rightarrow> 32 word \<Rightarrow> 32 word \<Rightarrow> 32 word \<Rightarrow> 32 word \<Rightarrow> hal \<Rightarrow> fault + hal" where
  "gpio_init drv p v pull_mode io_mode s =
     and_then (hal_gpio_set_value drv p v s) (\<lambda>s1.
       if gpioSetPullUpDown drv p pull_mode \<noteq> 0 then Inl Panic
       else if gpioSetMode drv p io_mode \<noteq> 0 then Inl Panic
       else Inr s1)"

text \<open>
  \<^verbatim>\<open>gpio[irq->pin - 0x2u]\<close>: the subtraction is unsigned and wraps around. The argument
  \<open>irq_arg\<close> is the pointer that the caller passes; \<^verbatim>\<open>irq->pin\<close> and \<^verbatim>\<open>irq->callback\<close> are
  read from the memory at that address.
\<close>

definition hal_gpio_irq_attach :: "pigpio \<Rightarrow> ptr \<Rightarrow> hal \<Rightarrow> fault + hal" where
  "hal_gpio_irq_attach drv irq_arg s =
     (if irq_arg = NULL \<or> hal_gpio_irq_t.callback (irq_mem s irq_arg) = NULL then Inr s
      else
        let r = irq_mem s irq_arg; idx = unat (pin r - 2)
        in if \<not> idx < length (gpio s) then Inl Out_Of_Bounds
           else
             let m = irq_mode (gpio s ! idx)
             in if m = BSP_GPIO_IRQ_MODE_OFF then Inr s
                else
                  let s1 = s\<lparr>gpio := (gpio s)[idx := (gpio s ! idx)\<lparr>irq := irq_arg\<rparr>]\<rparr>
                  in if gpioSetISRFunc drv (pin r) (modes m) True \<noteq> 0 then Inl Panic
                     else Inr (s1\<lparr>isr := (isr s1)(pin r := Some (modes m))\<rparr>))"

definition hal_gpio_irq_detach :: "pigpio \<Rightarrow> ptr \<Rightarrow> hal \<Rightarrow> fault + hal" where
  "hal_gpio_irq_detach drv irq_arg s =
     (if irq_arg = NULL then Inr s
      else
        let r = irq_mem s irq_arg
        in if gpioSetISRFunc drv (pin r) 0 False \<noteq> 0 then Inl Panic
           else
             let s1 = s\<lparr>isr := (isr s)(pin r := None)\<rparr>; idx = unat (pin r - 2)
             in if \<not> idx < length (gpio s1) then Inl Out_Of_Bounds
                else Inr (s1\<lparr>gpio := (gpio s1)[idx := (gpio s1 ! idx)\<lparr>irq := NULL\<rparr>]\<rparr>))"

text \<open>
  \<^verbatim>\<open>hal_gpio_init_in\<close> first writes the pin into the caller's descriptor, through the
  pointer, when the pointer is not null.
\<close>

definition hal_gpio_init_in ::
  "pigpio \<Rightarrow> 32 word \<Rightarrow> hal_gpio_pull_mode_t \<Rightarrow> hal_gpio_irq_mode_t \<Rightarrow> ptr
     \<Rightarrow> hal \<Rightarrow> fault + hal" where
  "hal_gpio_init_in drv p pull_mode m irq_arg s =
     (let s0 = (if irq_arg \<noteq> NULL
                then s\<lparr>irq_mem := (irq_mem s)(irq_arg := (irq_mem s irq_arg)\<lparr>pin := p\<rparr>)\<rparr>
                else s)
      in and_then (gpio_init drv p PI_CLEAR (pulls pull_mode) PI_INPUT s0) (\<lambda>s1.
           let idx = unat (p - 2)
           in if \<not> idx < length (gpio s1) then Inl Out_Of_Bounds
              else hal_gpio_irq_attach drv irq_arg
                     (s1\<lparr>gpio := (gpio s1)[idx := (gpio s1 ! idx)\<lparr>irq_mode := m\<rparr>]\<rparr>)))"

definition hal_gpio_init_out :: "pigpio \<Rightarrow> 32 word \<Rightarrow> 32 word \<Rightarrow> hal \<Rightarrow> fault + hal" where
  "hal_gpio_init_out drv p v s = gpio_init drv p v PI_PUD_OFF PI_OUTPUT s"

text \<open>The body of the loop of \<^verbatim>\<open>hal_gpio_irq_enable\<close>, for index \<open>i\<close>.\<close>

definition irq_enable_step :: "nat \<Rightarrow> hal \<Rightarrow> hal" where
  "irq_enable_step i s =
     (let s1 = s\<lparr>gpio := (gpio s)[i := (gpio s ! i)\<lparr>gpio_t.blocked := False\<rparr>]\<rparr>;
          g = gpio s1 ! i
      in if gpio_t.pending g \<and> irq g \<noteq> NULL \<and>
            hal_gpio_irq_t.callback (irq_mem s1 (irq g)) \<noteq> NULL
         then s1\<lparr>gpio := (gpio s1)[i := g\<lparr>gpio_t.pending := False\<rparr>],
                 dispatched := dispatched s1 @
                   [Dispatch (Pin_Slot i) (hal_gpio_irq_t.callback (irq_mem s1 (irq g)))
                      (hal_gpio_irq_t.cb_context (irq_mem s1 (irq g)))]\<rparr>
         else s1)"

function irq_enable_loop :: "nat \<Rightarrow> hal \<Rightarrow> hal" where
  "irq_enable_loop i s =
     (if i < P_NUM s then irq_enable_loop (Suc i) (irq_enable_step i s) else s)"
  by pat_completeness auto
termination
  by (relation "measure (\<lambda>(i, s). P_NUM s - i)")
     (auto simp: irq_enable_step_def P_NUM_def Let_def)

definition hal_gpio_irq_enable :: "hal \<Rightarrow> hal" where
  "hal_gpio_irq_enable s = irq_enable_loop 0 s"

function irq_disable_loop :: "nat \<Rightarrow> gpio_t list \<Rightarrow> gpio_t list" where
  "irq_disable_loop i g =
     (if i < length g then irq_disable_loop (Suc i) (g[i := (g ! i)\<lparr>gpio_t.blocked := True\<rparr>])
      else g)"
  by pat_completeness auto
termination
  by (relation "measure (\<lambda>(i, g). length g - i)") auto

definition hal_gpio_irq_disable :: "hal \<Rightarrow> hal" where
  "hal_gpio_irq_disable s = s\<lparr>gpio := irq_disable_loop 0 (gpio s)\<rparr>"

function clear_pending_loop :: "nat \<Rightarrow> gpio_t list \<Rightarrow> gpio_t list" where
  "clear_pending_loop i g =
     (if i < length g then clear_pending_loop (Suc i) (g[i := (g ! i)\<lparr>gpio_t.pending := False\<rparr>])
      else g)"
  by pat_completeness auto
termination
  by (relation "measure (\<lambda>(i, g). length g - i)") auto

definition hal_gpio_clear_pending_irq :: "32 word \<Rightarrow> hal \<Rightarrow> hal" where
  "hal_gpio_clear_pending_irq p s = s\<lparr>gpio := clear_pending_loop 0 (gpio s)\<rparr>"

text \<open>
  The driver's callback: \<^verbatim>\<open>uint8_t index = pin - 0x2u\<close> keeps the low eight bits of the
  unsigned difference.
\<close>

definition gpio_irq_callback :: "32 word \<Rightarrow> 32 word \<Rightarrow> 32 word \<Rightarrow> hal \<Rightarrow> fault + hal" where
  "gpio_irq_callback p level tick s =
     (let index = (ucast (p - 2) :: 8 word); i = unat index
      in if \<not> i < length (gpio s) then Inl Out_Of_Bounds
         else
           let g = gpio s ! i
           in if gpio_t.blocked g
              then Inr (s\<lparr>gpio := (gpio s)[i := g\<lparr>gpio_t.pending := True\<rparr>]\<rparr>)
              else if irq g \<noteq> NULL \<and> hal_gpio_irq_t.callback (irq_mem s (irq g)) \<noteq> NULL
              then Inr (s\<lparr>dispatched := dispatched s @
                            [Dispatch (Pin_Slot i) (hal_gpio_irq_t.callback (irq_mem s (irq g)))
                               (hal_gpio_irq_t.cb_context (irq_mem s (irq g)))]\<rparr>)
              else Inr s)"

text \<open>
  An edge on a pin, as the driver delivers it: the driver calls the function registered
  for that pin, if one is registered, and does nothing otherwise. A successful
  \<^verbatim>\<open>gpioSetISRFunc\<close> is what registers the function (in \<^verbatim>\<open>hal_gpio_irq_attach\<close>) or removes
  it (in \<^verbatim>\<open>hal_gpio_irq_detach\<close>).
\<close>

definition pigpio_edge :: "32 word \<Rightarrow> 32 word \<Rightarrow> 32 word \<Rightarrow> hal \<Rightarrow> fault + hal" where
  "pigpio_edge p level tick s =
     (case isr s p of None \<Rightarrow> Inr s | Some e \<Rightarrow> gpio_irq_callback p level tick s)"

section \<open>Sequences of calls\<close>

text \<open>
  The calls that the worker, the operating system (\<open>Timer_Expiry\<close>) and the GPIO driver
  (\<open>Gpio_Callback\<close>, \<open>Pin_Edge\<close>) make on the two facilities, and the run of a sequence of
  them from a state. A run stops at the first fault. \<open>Descriptor_Store a d\<close> is the caller
  writing the descriptor \<open>d\<close> into its own memory at the address \<open>a\<close>, as it does before it
  passes \<open>a\<close> to the pin functions.
\<close>

datatype hal_call =
  Timer_Start nat "32 word" hal_lp_timer_irq_t
  | Timer_Stop nat
  | Timer_Irq_Enable nat
  | Timer_Irq_Disable nat
  | Timer_Expiry int
  | Descriptor_Store ptr hal_gpio_irq_t
  | Gpio_Init_In "32 word" hal_gpio_pull_mode_t hal_gpio_irq_mode_t ptr
  | Gpio_Irq_Attach ptr
  | Gpio_Irq_Detach ptr
  | Gpio_Irq_Enable
  | Gpio_Irq_Disable
  | Gpio_Clear_Pending "32 word"
  | Gpio_Callback "32 word" "32 word" "32 word"
  | Pin_Edge "32 word" "32 word" "32 word"

fun run_call :: "timer_settime_t \<Rightarrow> pigpio \<Rightarrow> hal_call \<Rightarrow> hal \<Rightarrow> fault + hal" where
  "run_call os drv (Timer_Start tid ms h) s = hal_lp_timer_start os tid ms h s"
| "run_call os drv (Timer_Stop tid) s = hal_lp_timer_stop os tid s"
| "run_call os drv (Timer_Irq_Enable tid) s = hal_lp_timer_irq_enable tid s"
| "run_call os drv (Timer_Irq_Disable tid) s = hal_lp_timer_irq_disable tid s"
| "run_call os drv (Timer_Expiry sival) s = pl_timer_handler sival s"
| "run_call os drv (Descriptor_Store a d) s = Inr (s\<lparr>irq_mem := (irq_mem s)(a := d)\<rparr>)"
| "run_call os drv (Gpio_Init_In p pull_mode m irq_arg) s =
     hal_gpio_init_in drv p pull_mode m irq_arg s"
| "run_call os drv (Gpio_Irq_Attach irq_arg) s = hal_gpio_irq_attach drv irq_arg s"
| "run_call os drv (Gpio_Irq_Detach irq_arg) s = hal_gpio_irq_detach drv irq_arg s"
| "run_call os drv Gpio_Irq_Enable s = Inr (hal_gpio_irq_enable s)"
| "run_call os drv Gpio_Irq_Disable s = Inr (hal_gpio_irq_disable s)"
| "run_call os drv (Gpio_Clear_Pending p) s = Inr (hal_gpio_clear_pending_irq p s)"
| "run_call os drv (Gpio_Callback p level tick) s = gpio_irq_callback p level tick s"
| "run_call os drv (Pin_Edge p level tick) s = pigpio_edge p level tick s"

fun run :: "timer_settime_t \<Rightarrow> pigpio \<Rightarrow> hal_call list \<Rightarrow> hal \<Rightarrow> fault + hal" where
  "run os drv [] s = Inr s"
| "run os drv (c # cs) s = and_then (run_call os drv c s) (run os drv cs)"

section \<open>Reading the dispatch log\<close>

text \<open>The dispatches of a slot in a log.\<close>

fun dispatch_slot :: "dispatch \<Rightarrow> slot" where
  "dispatch_slot (Dispatch sl cb ctx) = sl"

definition dispatches_of :: "slot \<Rightarrow> dispatch list \<Rightarrow> dispatch list" where
  "dispatches_of sl ds = filter (\<lambda>d. dispatch_slot d = sl) ds"

text \<open>
  What a slot logs when it invokes its handler: one entry, or nothing when no handler is
  attached. \<open>timer_handler_none\<close> and \<open>pin_handler_none\<close> say that no handler is attached;
  for a pin slot the descriptor is read from the memory \<open>mem\<close>.
\<close>

definition timer_handler_none :: "lp_timer_t \<Rightarrow> bool" where
  "timer_handler_none t = (hal_lp_timer_irq_t.callback (tmr_irq t) = NULL)"

definition pin_handler_none :: "(ptr \<Rightarrow> hal_gpio_irq_t) \<Rightarrow> gpio_t \<Rightarrow> bool" where
  "pin_handler_none mem g = (irq g = NULL \<or> hal_gpio_irq_t.callback (mem (irq g)) = NULL)"

definition timer_dispatch :: "nat \<Rightarrow> lp_timer_t \<Rightarrow> dispatch list" where
  "timer_dispatch tid t =
     (if timer_handler_none t then []
      else [Dispatch (Timer_Slot tid) (hal_lp_timer_irq_t.callback (tmr_irq t))
              (hal_lp_timer_irq_t.cb_context (tmr_irq t))])"

definition pin_dispatch :: "(ptr \<Rightarrow> hal_gpio_irq_t) \<Rightarrow> nat \<Rightarrow> gpio_t \<Rightarrow> dispatch list" where
  "pin_dispatch mem i g =
     (if pin_handler_none mem g then []
      else [Dispatch (Pin_Slot i) (hal_gpio_irq_t.callback (mem (irq g)))
              (hal_gpio_irq_t.cb_context (mem (irq g)))])"

text \<open>
  The effect of unmasking on one pin slot: the deferred dispatch \<open>pin_flush\<close>, made when
  the slot is pending and has a handler, and the slot afterwards.
\<close>

definition pin_flush :: "(ptr \<Rightarrow> hal_gpio_irq_t) \<Rightarrow> nat \<Rightarrow> gpio_t \<Rightarrow> dispatch list" where
  "pin_flush mem i g = (if gpio_t.pending g then pin_dispatch mem i g else [])"

definition pin_unmasked :: "(ptr \<Rightarrow> hal_gpio_irq_t) \<Rightarrow> gpio_t \<Rightarrow> gpio_t" where
  "pin_unmasked mem g =
     (if gpio_t.pending g \<and> \<not> pin_handler_none mem g
      then g\<lparr>gpio_t.blocked := False, gpio_t.pending := False\<rparr>
      else g\<lparr>gpio_t.blocked := False\<rparr>)"

text \<open>The handlers that a sequence of calls starts on timer \<open>tid\<close>.\<close>

fun started_on :: "nat \<Rightarrow> hal_call list \<Rightarrow> hal_lp_timer_irq_t list" where
  "started_on tid [] = []"
| "started_on tid (Timer_Start t ms h # cs) =
     (if t = tid then h # started_on tid cs else started_on tid cs)"
| "started_on tid (c # cs) = started_on tid cs"

text \<open>An operating system whose calls succeed, and a driver whose calls succeed.\<close>

definition os_ok :: timer_settime_t where
  "os_ok h its = 0"

definition drv_ok :: pigpio where
  "drv_ok = \<lparr>gpioWrite = (\<lambda>p v. 0), gpioSetPullUpDown = (\<lambda>p v. 0),
     gpioSetMode = (\<lambda>p v. 0), gpioSetISRFunc = (\<lambda>p e f. 0)\<rparr>"

section \<open>main.c\<close>

record globals =
  g_uplink_period_s :: "32 word"
  g_packet_size :: "8 word"
  g_packet_size_fixed :: bool

definition globals_init :: globals where
  "globals_init = \<lparr>g_uplink_period_s = 60, g_packet_size = 12, g_packet_size_fixed = True\<rparr>"

text \<open>
  The argument parsing of \<^verbatim>\<open>main\<close>. \<^verbatim>\<open>atoi\<close> is the C library's: it is a parameter, and
  its result is an \<^verbatim>\<open>int\<close>, a 32-bit word read as signed. \<open>argc\<close> is the length of \<open>argv\<close>.
\<close>

definition main_parse_args :: "(string \<Rightarrow> 32 word) \<Rightarrow> string list \<Rightarrow> globals \<Rightarrow> globals" where
  "main_parse_args atoi argv g =
     (let argc = int (length argv);
          g1 = (if argc \<ge> 2
                then
                  let p = atoi (argv ! 1);
                      p = (if sint p < 1 then 1 else p)
                  in g\<lparr>g_uplink_period_s := p\<rparr>
                else g);
          g2 = (if argc \<ge> 3
                then
                  let sz = atoi (argv ! 2);
                      sz = (if sint sz < 1 then 1 else sz);
                      sz = (if sint sz > 222 then 222 else sz)
                  in g1\<lparr>g_packet_size := ucast sz\<rparr>
                else g1)
      in if argc \<ge> 4
         then
           if argv ! 3 = ''var'' \<or> argv ! 3 = ''variable'' \<or> argv ! 3 = ''1''
           then g2\<lparr>g_packet_size_fixed := False\<rparr>
           else g2\<lparr>g_packet_size_fixed := True\<rparr>
         else g2)"

text \<open>
  The wait status, and the macros of \<^verbatim>\<open>sys/wait.h\<close> that read it. A worker ends by
  leaving with an exit code (eight bits) or by a signal (number 1 to 126, with or without
  a core dump); \<open>waitpid\<close> is the status the supervisor then receives.
\<close>

definition WTERMSIG :: "32 word \<Rightarrow> 32 word" where
  "WTERMSIG wstatus = wstatus AND 0x7f"

definition WIFEXITED :: "32 word \<Rightarrow> bool" where
  "WIFEXITED wstatus = (WTERMSIG wstatus = 0)"

definition WEXITSTATUS :: "32 word \<Rightarrow> 32 word" where
  "WEXITSTATUS wstatus = drop_bit 8 (wstatus AND 0xff00)"

datatype worker_end = Exited "8 word" | Signaled nat bool

fun waitpid :: "worker_end \<Rightarrow> 32 word" where
  "waitpid (Exited code) = push_bit 8 (ucast code)"
| "waitpid (Signaled sig core) = of_nat sig OR (if core then 0x80 else 0)"

definition signal_ok :: "worker_end \<Rightarrow> bool" where
  "signal_ok t = (case t of Exited code \<Rightarrow> True | Signaled sig core \<Rightarrow> 1 \<le> sig \<and> sig \<le> 126)"

text \<open>
  The fork loop of \<^verbatim>\<open>main\<close>, in the supervisor. Its input is the way each successive
  worker ends; \<open>forks\<close> counts the workers forked so far. Each turn of the loop forks a
  worker (\<^verbatim>\<open>fork\<close> is taken to succeed) and waits for it. When the list is used up the
  last worker forked is still alive and the supervisor is waiting for it: it is \<open>RUNNING\<close>.
  When the loop ends, \<^verbatim>\<open>main\<close> returns: the supervisor is \<open>STOPPED\<close>.
\<close>

datatype supervisor_state = RUNNING | STOPPED

fun main_fork_loop :: "nat \<Rightarrow> worker_end list \<Rightarrow> supervisor_state \<times> nat" where
  "main_fork_loop forks [] = (RUNNING, Suc forks)"
| "main_fork_loop forks (t # ts) =
     (let wstatus = waitpid t
      in if WIFEXITED wstatus \<and> WEXITSTATUS wstatus = 3
         then main_fork_loop (Suc forks) ts
         else (STOPPED, Suc forks))"

section \<open>Example states\<close>

text \<open>
  Concrete states for the instances below. \<open>ex_state\<close> has a handler on timer 1 and on
  pin 4 (slot 2), whose descriptor \<open>ex_pin_irq\<close> is at the address \<open>ex_pin_addr\<close>; \<open>ex_bare\<close>
  has no handler anywhere and is the state after boot when all its flags are false. The
  flags are the mask and pending flags of the timer slot and of the pin slot.
\<close>

definition ex_timer_irq :: hal_lp_timer_irq_t where
  "ex_timer_irq = \<lparr>hal_lp_timer_irq_t.cb_context = 7, hal_lp_timer_irq_t.callback = 9\<rparr>"

definition ex_pin_irq :: hal_gpio_irq_t where
  "ex_pin_irq = \<lparr>pin = 4, hal_gpio_irq_t.cb_context = 5, hal_gpio_irq_t.callback = 6\<rparr>"

definition ex_pin_addr :: ptr where
  "ex_pin_addr = 100"

definition ex_state :: "bool \<Rightarrow> bool \<Rightarrow> bool \<Rightarrow> bool \<Rightarrow> hal" where
  "ex_state tmask tpend pmask ppend =
     \<lparr>lptim = [lptim_zero,
         lptim_zero\<lparr>tmr_irq := ex_timer_irq, lp_timer_t.blocked := tmask,
           lp_timer_t.pending := tpend\<rparr>],
      gpio = [gpio_zero, gpio_zero,
         gpio_zero\<lparr>irq := ex_pin_addr, irq_mode := BSP_GPIO_IRQ_MODE_RISING,
           gpio_t.blocked := pmask, gpio_t.pending := ppend\<rparr>],
      irq_mem = (\<lambda>_. irq_zero)(ex_pin_addr := ex_pin_irq),
      isr = (\<lambda>_. None)(4 := Some RISING_EDGE), dispatched = []\<rparr>"

definition ex_bare :: "bool \<Rightarrow> bool \<Rightarrow> bool \<Rightarrow> bool \<Rightarrow> hal" where
  "ex_bare tmask tpend pmask ppend =
     \<lparr>lptim = [lptim_zero\<lparr>lp_timer_t.blocked := tmask, lp_timer_t.pending := tpend\<rparr>,
         lptim_zero],
      gpio = [gpio_zero\<lparr>gpio_t.blocked := pmask, gpio_t.pending := ppend\<rparr>, gpio_zero],
      irq_mem = (\<lambda>_. irq_zero), isr = (\<lambda>_. None), dispatched = []\<rparr>"

definition ex_new_irq :: hal_lp_timer_irq_t where
  "ex_new_irq = \<lparr>hal_lp_timer_irq_t.cb_context = 8, hal_lp_timer_irq_t.callback = 10\<rparr>"

definition ex_stale :: hal where
  "ex_stale =
     \<lparr>lptim = [lptim_zero\<lparr>tmr_irq := ex_timer_irq, lp_timer_t.pending := True\<rparr>, lptim_zero],
      gpio = [gpio_zero, gpio_zero], irq_mem = (\<lambda>_. irq_zero), isr = (\<lambda>_. None),
      dispatched = []\<rparr>"


definition ex_restart :: "hal_call list" where
  "ex_restart = [Timer_Start 1 50 ex_new_irq, Timer_Expiry 1, Timer_Irq_Disable 1,
     Timer_Expiry 1, Timer_Irq_Enable 1]"

section \<open>Notions for the proofs\<close>

text \<open>
  \<open>detached tid old s\<close>: timer \<open>tid\<close> exists and does not hold the handler \<open>old\<close>, unless
  \<open>old\<close> has no callback. \<open>old_dispatch\<close> is the log entry of a dispatch of \<open>old\<close> by timer
  \<open>tid\<close>. \<open>clamp_size a\<close> is the packet size that \<^verbatim>\<open>main\<close> stores when \<^verbatim>\<open>atoi\<close> gives \<open>a\<close>.
\<close>

definition detached :: "nat \<Rightarrow> hal_lp_timer_irq_t \<Rightarrow> hal \<Rightarrow> bool" where
  "detached tid old s =
     (tid < length (lptim s) \<and>
      (hal_lp_timer_irq_t.callback old = NULL \<or> tmr_irq (lptim s ! tid) \<noteq> old))"

definition old_dispatch :: "nat \<Rightarrow> hal_lp_timer_irq_t \<Rightarrow> dispatch" where
  "old_dispatch tid old =
     Dispatch (Timer_Slot tid) (hal_lp_timer_irq_t.callback old)
       (hal_lp_timer_irq_t.cb_context old)"

definition clamp_size :: "32 word \<Rightarrow> 8 word" where
  "clamp_size a = ucast (let sz = (if sint a < 1 then 1 else a) in if sint sz > 222 then 222 else sz)"

section \<open>The gate of a timer slot\<close>

lemma pl_timer_handler_masked:
  assumes "tid < length (lptim s)" and "lp_timer_t.blocked (lptim s ! tid)"
  shows "pl_timer_handler (int tid) s =
           Inr (s\<lparr>lptim := (lptim s)[tid := (lptim s ! tid)\<lparr>lp_timer_t.pending := True\<rparr>]\<rparr>)"
  using assms by (simp add: pl_timer_handler_def Let_def)

lemma pl_timer_handler_unmasked:
  assumes "tid < length (lptim s)" and "\<not> lp_timer_t.blocked (lptim s ! tid)"
  shows "pl_timer_handler (int tid) s =
           Inr (s\<lparr>dispatched := dispatched s @ timer_dispatch tid (lptim s ! tid)\<rparr>)"
  using assms
  by (simp add: pl_timer_handler_def Let_def timer_dispatch_def timer_handler_none_def)

lemma hal_lp_timer_irq_enable_flush:
  assumes "tid < length (lptim s)" and "lp_timer_t.pending (lptim s ! tid)"
    and "\<not> timer_handler_none (lptim s ! tid)"
  shows "hal_lp_timer_irq_enable tid s =
           Inr (s\<lparr>lptim := (lptim s)[tid := (lptim s ! tid)
                      \<lparr>lp_timer_t.blocked := False, lp_timer_t.pending := False\<rparr>],
                   dispatched := dispatched s @ timer_dispatch tid (lptim s ! tid)\<rparr>)"
  using assms
  by (simp add: hal_lp_timer_irq_enable_def Let_def timer_dispatch_def timer_handler_none_def)

lemma hal_lp_timer_irq_enable_idle:
  assumes "tid < length (lptim s)"
    and "\<not> lp_timer_t.pending (lptim s ! tid) \<or> timer_handler_none (lptim s ! tid)"
  shows "hal_lp_timer_irq_enable tid s =
           Inr (s\<lparr>lptim := (lptim s)[tid := (lptim s ! tid)\<lparr>lp_timer_t.blocked := False\<rparr>]\<rparr>)"
  using assms
  by (auto simp: hal_lp_timer_irq_enable_def Let_def timer_handler_none_def)

lemma lp_timer_unblock_id:
  "\<not> lp_timer_t.blocked t \<Longrightarrow> t\<lparr>lp_timer_t.blocked := False\<rparr> = t"
  by (cases t) simp

lemma hal_lptim_id: "s\<lparr>lptim := lptim s\<rparr> = s"
  by (cases s) simp

section \<open>The gate of a pin slot\<close>

lemma gpio_irq_callback_masked:
  assumes "i = unat (ucast (p - 2) :: 8 word)" and "i < P_NUM s" and "gpio_t.blocked (gpio s ! i)"
  shows "gpio_irq_callback p level tick s =
           Inr (s\<lparr>gpio := (gpio s)[i := (gpio s ! i)\<lparr>gpio_t.pending := True\<rparr>]\<rparr>)"
  using assms by (simp add: gpio_irq_callback_def Let_def P_NUM_def)

lemma gpio_irq_callback_unmasked:
  assumes "i = unat (ucast (p - 2) :: 8 word)" and "i < P_NUM s" and "\<not> gpio_t.blocked (gpio s ! i)"
  shows "gpio_irq_callback p level tick s =
           Inr (s\<lparr>dispatched := dispatched s @ pin_dispatch (irq_mem s) i (gpio s ! i)\<rparr>)"
  using assms
  by (simp add: gpio_irq_callback_def Let_def P_NUM_def pin_dispatch_def pin_handler_none_def)

lemma irq_disable_loop_eq:
  "irq_disable_loop i g = take i g @ map (\<lambda>x. x\<lparr>gpio_t.blocked := True\<rparr>) (drop i g)"
proof (induction i g rule: irq_disable_loop.induct)
  case (1 i g)
  show ?case
  proof (cases "i < length g")
    case True
    then show ?thesis
      using "1.IH" [OF True]
      by (subst irq_disable_loop.simps)
         (simp add: take_Suc_conv_app_nth Cons_nth_drop_Suc [symmetric])
  next
    case False
    then show ?thesis by (subst irq_disable_loop.simps) simp
  qed
qed

lemma hal_gpio_irq_disable_eq:
  "hal_gpio_irq_disable s = s\<lparr>gpio := map (\<lambda>x. x\<lparr>gpio_t.blocked := True\<rparr>) (gpio s)\<rparr>"
  unfolding hal_gpio_irq_disable_def by (subst irq_disable_loop_eq) simp

lemma clear_pending_loop_eq:
  "clear_pending_loop i g = take i g @ map (\<lambda>x. x\<lparr>gpio_t.pending := False\<rparr>) (drop i g)"
proof (induction i g rule: clear_pending_loop.induct)
  case (1 i g)
  show ?case
  proof (cases "i < length g")
    case True
    then show ?thesis
      using "1.IH" [OF True]
      by (subst clear_pending_loop.simps)
         (simp add: take_Suc_conv_app_nth Cons_nth_drop_Suc [symmetric])
  next
    case False
    then show ?thesis by (subst clear_pending_loop.simps) simp
  qed
qed

lemma irq_enable_step_eq:
  assumes "i < P_NUM s"
  shows "irq_enable_step i s =
           s\<lparr>gpio := (gpio s)[i := pin_unmasked (irq_mem s) (gpio s ! i)],
             dispatched := dispatched s @ pin_flush (irq_mem s) i (gpio s ! i)\<rparr>"
  using assms
  by (simp add: irq_enable_step_def P_NUM_def Let_def pin_flush_def pin_dispatch_def
        pin_unmasked_def pin_handler_none_def)

lemma irq_enable_loop_eq:
  "irq_enable_loop k s =
     s\<lparr>gpio := take k (gpio s) @ map (pin_unmasked (irq_mem s)) (drop k (gpio s)),
       dispatched := dispatched s @
         concat (map (\<lambda>j. pin_flush (irq_mem s) j (gpio s ! j)) [k..<P_NUM s])\<rparr>"
proof (induction k s rule: irq_enable_loop.induct)
  case (1 i s)
  show ?case
  proof (cases "i < P_NUM s")
    case True
    have len: "i < length (gpio s)" using True by (simp add: P_NUM_def)
    have later: "map (\<lambda>j. pin_flush (irq_mem s) j ((gpio s)[i := pin_unmasked (irq_mem s) (gpio s ! i)] ! j))
                   [Suc i..<length (gpio s)] =
                 map (\<lambda>j. pin_flush (irq_mem s) j (gpio s ! j)) [Suc i..<length (gpio s)]"
      by (rule map_cong) auto
    have "irq_enable_loop i s = irq_enable_loop (Suc i) (irq_enable_step i s)"
      using True by (subst irq_enable_loop.simps) simp
    also have "\<dots> = (irq_enable_step i s)
       \<lparr>gpio := take (Suc i) (gpio (irq_enable_step i s)) @
                 map (pin_unmasked (irq_mem (irq_enable_step i s)))
                   (drop (Suc i) (gpio (irq_enable_step i s))),
        dispatched := dispatched (irq_enable_step i s) @
         concat (map (\<lambda>j. pin_flush (irq_mem (irq_enable_step i s)) j
                     (gpio (irq_enable_step i s) ! j))
           [Suc i..<P_NUM (irq_enable_step i s)])\<rparr>"
      by (rule "1.IH" [OF True])
    also have "\<dots> = s\<lparr>gpio := take i (gpio s) @ map (pin_unmasked (irq_mem s)) (drop i (gpio s)),
       dispatched := dispatched s @
         concat (map (\<lambda>j. pin_flush (irq_mem s) j (gpio s ! j)) [i..<P_NUM s])\<rparr>"
    proof -
      have g: "take (Suc i) ((gpio s)[i := pin_unmasked (irq_mem s) (gpio s ! i)]) @
                 map (pin_unmasked (irq_mem s)) (drop (Suc i) (gpio s)) =
               take i (gpio s) @ map (pin_unmasked (irq_mem s)) (drop i (gpio s))"
        using len by (simp add: take_Suc_conv_app_nth Cons_nth_drop_Suc [symmetric])
      have u: "[i..<length (gpio s)] = i # [Suc i..<length (gpio s)]"
        using len by (rule upt_conv_Cons)
      show ?thesis
        by (simp add: irq_enable_step_eq [OF True] P_NUM_def g later u)
    qed
    finally show ?thesis .
  next
    case False
    then show ?thesis by (subst irq_enable_loop.simps) (simp add: P_NUM_def)
  qed
qed

lemma hal_gpio_irq_enable_eq:
  "hal_gpio_irq_enable s =
     s\<lparr>gpio := map (pin_unmasked (irq_mem s)) (gpio s),
       dispatched := dispatched s @
         concat (map (\<lambda>j. pin_flush (irq_mem s) j (gpio s ! j)) [0..<P_NUM s])\<rparr>"
  unfolding hal_gpio_irq_enable_def by (subst irq_enable_loop_eq) simp

lemma dispatches_of_pin_flush:
  "dispatches_of (Pin_Slot i) (pin_flush mem j g) = (if j = i then pin_flush mem j g else [])"
  by (auto simp: dispatches_of_def pin_flush_def pin_dispatch_def)

lemma dispatches_of_append:
  "dispatches_of sl (xs @ ys) = dispatches_of sl xs @ dispatches_of sl ys"
  by (simp add: dispatches_of_def)

lemma dispatches_of_flushes:
  "distinct js \<Longrightarrow>
   dispatches_of (Pin_Slot i) (concat (map (\<lambda>j. pin_flush mem j (g ! j)) js)) =
     (if i \<in> set js then pin_flush mem i (g ! i) else [])"
proof (induction js)
  case Nil
  then show ?case by (simp add: dispatches_of_def)
next
  case (Cons j js)
  then show ?case
    by (auto simp: dispatches_of_append dispatches_of_pin_flush)
qed

lemma dispatches_of_irq_enable:
  "dispatches_of (Pin_Slot i) (dispatched (hal_gpio_irq_enable s)) =
     dispatches_of (Pin_Slot i) (dispatched s) @
       (if i < P_NUM s then pin_flush (irq_mem s) i (gpio s ! i) else [])"
  using dispatches_of_flushes [of "[0..<P_NUM s]" i "irq_mem s" "gpio s"]
  by (simp add: hal_gpio_irq_enable_eq dispatches_of_append)

lemma gpio_irq_enable_nth:
  "i < P_NUM s \<Longrightarrow> gpio (hal_gpio_irq_enable s) ! i = pin_unmasked (irq_mem s) (gpio s ! i)"
  by (simp add: hal_gpio_irq_enable_eq P_NUM_def)

section \<open>Facts about the example states\<close>

lemma boot_simps:
  "lptim (hal_boot n) = [lptim_zero, lptim_zero]"
  "gpio (hal_boot n) = replicate n gpio_zero"
  "irq_mem (hal_boot n) = (\<lambda>_. irq_zero)"
  "dispatched (hal_boot n) = []"
  "isr (hal_boot n) = (\<lambda>_. None)"
  by (simp_all add: hal_boot_def HAL_LP_TIMER_NB_def numeral_2_eq_2)

lemmas ex_defs = ex_state_def ex_bare_def ex_timer_irq_def ex_pin_irq_def ex_pin_addr_def
  irq_zero_def lptim_zero_def gpio_zero_def
  NULL_def P_NUM_def timer_dispatch_def pin_dispatch_def timer_handler_none_def
  pin_handler_none_def pin_flush_def pin_unmasked_def

section \<open>Runs\<close>

lemma and_then_Inr [simp]: "and_then (Inr x) f = f x"
  by (simp add: and_then_def)

lemma and_then_Inl [simp]: "and_then (Inl e) f = Inl e"
  by (simp add: and_then_def)

lemma run_expiries_masked:
  assumes "tid < length (lptim s)" and "lp_timer_t.blocked (lptim s ! tid)"
  shows "run os drv (replicate (Suc n) (Timer_Expiry (int tid))) s =
           Inr (s\<lparr>lptim := (lptim s)[tid := (lptim s ! tid)\<lparr>lp_timer_t.pending := True\<rparr>]\<rparr>)"
  using assms
proof (induction n arbitrary: s)
  case 0
  then show ?case by (simp add: pl_timer_handler_masked)
next
  case (Suc n)
  let ?s1 = "s\<lparr>lptim := (lptim s)[tid := (lptim s ! tid)\<lparr>lp_timer_t.pending := True\<rparr>]\<rparr>"
  have "run os drv (replicate (Suc (Suc n)) (Timer_Expiry (int tid))) s =
          run os drv (replicate (Suc n) (Timer_Expiry (int tid))) ?s1"
    using Suc.prems by (simp add: pl_timer_handler_masked)
  also have "\<dots> = Inr (?s1\<lparr>lptim := (lptim ?s1)[tid := (lptim ?s1 ! tid)\<lparr>lp_timer_t.pending := True\<rparr>]\<rparr>)"
    using Suc.prems by (intro Suc.IH) simp_all
  also have "\<dots> = Inr ?s1"
    using Suc.prems by simp
  finally show ?case .
qed

lemma run_callbacks_masked:
  assumes "i = unat (ucast (p - 2) :: 8 word)" and "i < P_NUM s" and "gpio_t.blocked (gpio s ! i)"
  shows "run os drv (replicate (Suc n) (Gpio_Callback p level tick)) s =
           Inr (s\<lparr>gpio := (gpio s)[i := (gpio s ! i)\<lparr>gpio_t.pending := True\<rparr>]\<rparr>)"
  using assms(2,3)
proof (induction n arbitrary: s)
  case 0
  then show ?case by (simp add: gpio_irq_callback_masked [OF assms(1)])
next
  case (Suc n)
  let ?s1 = "s\<lparr>gpio := (gpio s)[i := (gpio s ! i)\<lparr>gpio_t.pending := True\<rparr>]\<rparr>"
  have "run os drv (replicate (Suc (Suc n)) (Gpio_Callback p level tick)) s =
          run os drv (replicate (Suc n) (Gpio_Callback p level tick)) ?s1"
    using Suc.prems by (simp add: gpio_irq_callback_masked [OF assms(1)])
  also have "\<dots> = Inr (?s1\<lparr>gpio := (gpio ?s1)[i := (gpio ?s1 ! i)\<lparr>gpio_t.pending := True\<rparr>]\<rparr>)"
    using Suc.prems by (intro Suc.IH) (simp_all add: P_NUM_def)
  also have "\<dots> = Inr ?s1"
    using Suc.prems by (simp add: P_NUM_def)
  finally show ?case .
qed

lemma length_timer_dispatch: "length (timer_dispatch tid t) \<le> 1"
  by (simp add: timer_dispatch_def)

lemma length_pin_dispatch: "length (pin_dispatch mem i g) \<le> 1"
  by (simp add: pin_dispatch_def)

lemma pin_dispatch_attached:
  "\<not> pin_handler_none mem g \<Longrightarrow> length (pin_dispatch mem i g) = 1"
  by (simp add: pin_dispatch_def)

lemma replicate_2: "replicate 2 x = [x, x]"
  by (simp add: numeral_2_eq_2)

lemmas run_defs = hal_lp_timer_start_def hal_lp_timer_stop_def hal_lp_timer_irq_enable_def
  hal_lp_timer_irq_disable_def pl_timer_handler_def gpio_irq_callback_def pigpio_edge_def
  hal_gpio_irq_disable_eq hal_gpio_irq_enable_eq os_ok_def ZERO_def Let_def

section \<open>A handler that was stopped\<close>

lemma timer_dispatch_not_old:
  assumes "hal_lp_timer_irq_t.callback old = NULL \<or> tmr_irq t \<noteq> old"
  shows "old_dispatch tid old \<notin> set (timer_dispatch tid t)"
  using assms
  by (cases old; cases "tmr_irq t")
     (auto simp: timer_dispatch_def timer_handler_none_def old_dispatch_def)

lemma timer_dispatch_other:
  "t' \<noteq> tid \<Longrightarrow> old_dispatch tid old \<notin> set (timer_dispatch t' t)"
  by (auto simp: timer_dispatch_def old_dispatch_def)

lemma pin_dispatch_not_old: "old_dispatch tid old \<notin> set (pin_dispatch mem i g)"
  by (auto simp: pin_dispatch_def old_dispatch_def)

lemma pin_flush_not_old: "old_dispatch tid old \<notin> set (pin_flush mem i g)"
  by (simp add: pin_flush_def pin_dispatch_not_old)

text \<open>Each timer function: what it does to the handlers and to the log.\<close>

lemma nth_update_same_irq:
  assumes "tmr_irq y = tmr_irq (xs ! t)"
  shows "tmr_irq (xs[t := y] ! tid) = tmr_irq (xs ! tid)"
proof (cases "t = tid")
  case True
  show ?thesis
  proof (cases "tid < length xs")
    case l: True
    with True assms show ?thesis by simp
  next
    case l: False
    with True show ?thesis by (simp add: not_less list_update_beyond)
  qed
next
  case False
  then show ?thesis by simp
qed

lemma tmr_irq_flags:
  "tmr_irq ((xs[t := (xs ! t)\<lparr>lp_timer_t.blocked := b\<rparr>]) ! tid) = tmr_irq (xs ! tid)"
  "tmr_irq ((xs[t := (xs ! t)\<lparr>lp_timer_t.pending := c\<rparr>]) ! tid) = tmr_irq (xs ! tid)"
  "tmr_irq ((xs[t := (xs ! t)\<lparr>lp_timer_t.blocked := b, lp_timer_t.pending := c\<rparr>]) ! tid) =
     tmr_irq (xs ! tid)"
  by (rule nth_update_same_irq, simp)+

lemma timer_start_step:
  assumes "hal_lp_timer_start os t ms h s = Inr s'" and "detached tid old s"
    and "t \<noteq> tid \<or> h \<noteq> old"
  shows "detached tid old s' \<and> dispatched s' = dispatched s"
  using assms
  by (auto simp: hal_lp_timer_start_def Let_def detached_def nth_list_update split: if_splits)

lemma timer_stop_step:
  assumes "hal_lp_timer_stop os t s = Inr s'" and "detached tid old s"
  shows "detached tid old s' \<and> dispatched s' = dispatched s"
  using assms
  by (cases old)
     (auto simp: hal_lp_timer_stop_def Let_def detached_def nth_list_update split: if_splits)

lemma timer_irq_disable_step:
  assumes "hal_lp_timer_irq_disable t s = Inr s'" and "detached tid old s"
  shows "detached tid old s' \<and> dispatched s' = dispatched s"
  using assms
  by (auto simp: hal_lp_timer_irq_disable_def detached_def tmr_irq_flags split: if_splits)

lemma timer_irq_enable_step:
  assumes "hal_lp_timer_irq_enable t s = Inr s'" and "detached tid old s"
  shows "detached tid old s' \<and>
         (\<exists>ds. dispatched s' = dispatched s @ ds \<and> old_dispatch tid old \<notin> set ds)"
proof -
  have t: "t < length (lptim s)"
    using assms(1) by (simp add: hal_lp_timer_irq_enable_def split: if_splits)
  show ?thesis
  proof (cases "lp_timer_t.pending (lptim s ! t) \<and> \<not> timer_handler_none (lptim s ! t)")
    case True
    then have s': "s' = s\<lparr>lptim := (lptim s)[t := (lptim s ! t)
                      \<lparr>lp_timer_t.blocked := False, lp_timer_t.pending := False\<rparr>],
                   dispatched := dispatched s @ timer_dispatch t (lptim s ! t)\<rparr>"
      using assms(1) hal_lp_timer_irq_enable_flush [OF t] by simp
    have "old_dispatch tid old \<notin> set (timer_dispatch t (lptim s ! t))"
      using assms(2) timer_dispatch_not_old [of old "lptim s ! tid" tid]
        timer_dispatch_other [of t tid old "lptim s ! t"]
      by (cases "t = tid") (auto simp: detached_def)
    then show ?thesis
      using assms(2) by (auto simp: s' detached_def tmr_irq_flags)
  next
    case False
    then have s': "s' = s\<lparr>lptim := (lptim s)[t := (lptim s ! t)\<lparr>lp_timer_t.blocked := False\<rparr>]\<rparr>"
      using assms(1) hal_lp_timer_irq_enable_idle [OF t] by auto
    show ?thesis
      using assms(2) by (auto simp: s' detached_def tmr_irq_flags)
  qed
qed

lemma timer_expiry_step:
  assumes "pl_timer_handler sival s = Inr s'" and "detached tid old s"
  shows "detached tid old s' \<and>
         (\<exists>ds. dispatched s' = dispatched s @ ds \<and> old_dispatch tid old \<notin> set ds)"
proof -
  from assms(1) obtain t where sv: "sival = int t" and t: "t < length (lptim s)"
    by (cases "0 \<le> sival \<and> nat sival < length (lptim s)")
       (auto simp: pl_timer_handler_def intro: that [of "nat sival"])
  show ?thesis
  proof (cases "lp_timer_t.blocked (lptim s ! t)")
    case True
    then have s': "s' = s\<lparr>lptim := (lptim s)[t := (lptim s ! t)\<lparr>lp_timer_t.pending := True\<rparr>]\<rparr>"
      using assms(1) pl_timer_handler_masked [OF t] by (simp add: sv)
    show ?thesis
      using assms(2) by (auto simp: s' detached_def tmr_irq_flags)
  next
    case False
    then have s': "s' = s\<lparr>dispatched := dispatched s @ timer_dispatch t (lptim s ! t)\<rparr>"
      using assms(1) pl_timer_handler_unmasked [OF t] by (simp add: sv)
    have "old_dispatch tid old \<notin> set (timer_dispatch t (lptim s ! t))"
      using assms(2) timer_dispatch_not_old [of old "lptim s ! tid" tid]
        timer_dispatch_other [of t tid old "lptim s ! t"]
      by (cases "t = tid") (auto simp: detached_def)
    then show ?thesis
      using assms(2) by (auto simp: s' detached_def)
  qed
qed

text \<open>The pin functions leave the timers alone and log only dispatches of pin slots.\<close>

lemma gpio_init_frame:
  "gpio_init drv p v pm io s = Inr s' \<Longrightarrow> s' = s"
  by (auto simp: gpio_init_def hal_gpio_set_value_def and_then_def split: if_splits sum.splits)

lemma attach_frame:
  "hal_gpio_irq_attach drv a s = Inr s' \<Longrightarrow> lptim s' = lptim s \<and> dispatched s' = dispatched s"
  by (auto simp: hal_gpio_irq_attach_def Let_def split: if_splits)

lemma detach_frame:
  "hal_gpio_irq_detach drv a s = Inr s' \<Longrightarrow> lptim s' = lptim s \<and> dispatched s' = dispatched s"
  by (auto simp: hal_gpio_irq_detach_def Let_def split: if_splits)

lemma init_in_frame:
  assumes "hal_gpio_init_in drv p pm m a s = Inr s'"
  shows "lptim s' = lptim s \<and> dispatched s' = dispatched s"
proof -
  let ?s0 = "if a \<noteq> NULL
             then s\<lparr>irq_mem := (irq_mem s)(a := (irq_mem s a)\<lparr>pin := p\<rparr>)\<rparr> else s"
  have s0: "lptim ?s0 = lptim s" "dispatched ?s0 = dispatched s" by simp_all
  from assms obtain s1 where g: "gpio_init drv p PI_CLEAR (pulls pm) PI_INPUT ?s0 = Inr s1"
    by (cases "gpio_init drv p PI_CLEAR (pulls pm) PI_INPUT ?s0")
       (auto simp: hal_gpio_init_in_def Let_def)
  have s1: "s1 = ?s0" using g by (rule gpio_init_frame)
  from assms g have "hal_gpio_irq_attach drv a
      (?s0\<lparr>gpio := (gpio ?s0)[unat (p - 2) := (gpio ?s0 ! unat (p - 2))\<lparr>irq_mode := m\<rparr>]\<rparr>) =
      Inr s'"
    unfolding hal_gpio_init_in_def Let_def s1 by (auto split: if_splits)
  from attach_frame [OF this] s0 show ?thesis by simp
qed

lemma callback_frame:
  assumes "gpio_irq_callback p level tick s = Inr s'"
  shows "lptim s' = lptim s \<and>
         (\<exists>ds. dispatched s' = dispatched s @ ds \<and> old_dispatch tid old \<notin> set ds)"
proof -
  let ?i = "unat (ucast (p - 2) :: 8 word)"
  have i: "?i < P_NUM s"
    using assms by (auto simp: gpio_irq_callback_def Let_def P_NUM_def split: if_splits)
  show ?thesis
  proof (cases "gpio_t.blocked (gpio s ! ?i)")
    case True
    then show ?thesis using assms gpio_irq_callback_masked [OF refl i True] by auto
  next
    case False
    then show ?thesis
      using assms gpio_irq_callback_unmasked [OF refl i False] pin_dispatch_not_old by auto
  qed
qed

lemma flushes_not_old:
  "old_dispatch tid old \<notin> set (concat (map (\<lambda>j. pin_flush mem j (g ! j)) js))"
  by (induction js) (simp_all add: pin_flush_not_old)

lemma run_call_step:
  assumes "run_call os drv c s = Inr s'" and "detached tid old s"
    and "old \<notin> set (started_on tid [c])"
  shows "detached tid old s' \<and>
         (\<exists>ds. dispatched s' = dispatched s @ ds \<and> old_dispatch tid old \<notin> set ds)"
proof (cases c)
  case (Timer_Start t ms h)
  then show ?thesis
    using assms timer_start_step [of os t ms h s s' tid old] by (auto split: if_splits)
next
  case (Timer_Stop t)
  then show ?thesis using assms timer_stop_step [of os t s s' tid old] by auto
next
  case (Timer_Irq_Enable t)
  then show ?thesis using assms timer_irq_enable_step [of t s s' tid old] by auto
next
  case (Timer_Irq_Disable t)
  then show ?thesis using assms timer_irq_disable_step [of t s s' tid old] by auto
next
  case (Timer_Expiry sival)
  then show ?thesis using assms timer_expiry_step [of sival s s' tid old] by auto
next
  case (Descriptor_Store a d)
  then show ?thesis using assms by (auto simp: detached_def)
next
  case (Gpio_Init_In p pm m a)
  then show ?thesis using assms init_in_frame [of drv p pm m a s s'] by (auto simp: detached_def)
next
  case (Gpio_Irq_Attach a)
  then show ?thesis using assms attach_frame [of drv a s s'] by (auto simp: detached_def)
next
  case (Gpio_Irq_Detach a)
  then show ?thesis using assms detach_frame [of drv a s s'] by (auto simp: detached_def)
next
  case Gpio_Irq_Enable
  then show ?thesis
    using assms flushes_not_old [of tid old "irq_mem s" "gpio s" "[0..<P_NUM s]"]
    by (auto simp: hal_gpio_irq_enable_eq detached_def)
next
  case Gpio_Irq_Disable
  then show ?thesis using assms by (auto simp: hal_gpio_irq_disable_eq detached_def)
next
  case (Gpio_Clear_Pending p)
  then show ?thesis using assms by (auto simp: hal_gpio_clear_pending_irq_def detached_def)
next
  case (Gpio_Callback p level tick)
  then show ?thesis
    using assms callback_frame [of p level tick s s' tid old] by (auto simp: detached_def)
next
  case (Pin_Edge p level tick)
  then show ?thesis
    using assms callback_frame [of p level tick s s' tid old]
    by (auto simp: detached_def pigpio_edge_def split: option.splits)
qed

lemma started_on_Cons:
  "old \<notin> set (started_on tid (c # cs)) \<longleftrightarrow>
     old \<notin> set (started_on tid [c]) \<and> old \<notin> set (started_on tid cs)"
  by (cases c) auto

lemma run_steps:
  assumes "run os drv cs s = Inr s'" and "detached tid old s"
    and "old \<notin> set (started_on tid cs)"
  shows "detached tid old s' \<and>
         (\<exists>ds. dispatched s' = dispatched s @ ds \<and> old_dispatch tid old \<notin> set ds)"
  using assms
proof (induction cs arbitrary: s)
  case Nil
  then show ?case by simp
next
  case (Cons c cs)
  from Cons.prems(1) obtain s1 where c: "run_call os drv c s = Inr s1"
    and cs: "run os drv cs s1 = Inr s'"
    by (cases "run_call os drv c s") auto
  from Cons.prems(3) have n: "old \<notin> set (started_on tid [c])" "old \<notin> set (started_on tid cs)"
    using started_on_Cons [of old tid c cs] by blast+
  from run_call_step [OF c Cons.prems(2) n(1)]
  obtain ds1 where d1: "detached tid old s1" "dispatched s1 = dispatched s @ ds1"
    "old_dispatch tid old \<notin> set ds1" by blast
  from Cons.IH [OF cs d1(1) n(2)]
  obtain ds2 where d2: "detached tid old s'" "dispatched s' = dispatched s1 @ ds2"
    "old_dispatch tid old \<notin> set ds2" by blast
  have "dispatched s' = dispatched s @ (ds1 @ ds2)" "old_dispatch tid old \<notin> set (ds1 @ ds2)"
    using d1 d2 by simp_all
  then show ?case using d2(1) by blast
qed

lemma stop_result:
  assumes "hal_lp_timer_stop os tid s = Inr s1"
  shows "tid < length (lptim s1)"
    and "tmr_irq (lptim s1 ! tid) =
           \<lparr>hal_lp_timer_irq_t.cb_context = NULL, hal_lp_timer_irq_t.callback = NULL\<rparr>"
    and "detached tid old s1"
  using assms
  by (cases old; auto simp: hal_lp_timer_stop_def Let_def detached_def split: if_splits)+

lemma hal_lp_timer_stop_returns:
  assumes "tid < length (lptim s)"
    and "os (handle (lptim s ! tid)) \<lparr>it_value = ZERO, it_interval = ZERO\<rparr> \<noteq> - 1"
  shows "\<exists>s1. hal_lp_timer_stop os tid s = Inr s1"
  using assms by (simp add: hal_lp_timer_stop_def Let_def)

section \<open>Wait statuses\<close>

lemma low7_mask: "(0x7f :: 32 word) = mask 7" by (simp add: mask_eq_exp_minus_1)
lemma exit_status_mask: "(0xff00 :: 32 word) = push_bit 8 (mask 8)" by (simp add: mask_eq_exp_minus_1 push_bit_eq_mult)

lemma ucast_eq_3: "(ucast (code :: 8 word) :: 32 word) = 3 \<longleftrightarrow> code = 3"
proof
  assume "(ucast code :: 32 word) = 3"
  then have "unat (ucast code :: 32 word) = 3" by simp
  moreover have "unat (ucast code :: 32 word) = take_bit 32 (unat code)"
    using unsigned_ucast_eq [of code, where ?'c = 32 and ?'a = nat] by simp
  moreover have "unat code < 2 ^ 32"
    using unsigned_less [of code, where ?'a = nat] by simp
  ultimately have "unat code = 3" by (simp add: take_bit_nat_eq_self)
  then have "unat code = unat (3 :: 8 word)" by simp
  then show "code = 3" by (simp only: word_unat_eq_iff)
next
  assume "code = 3" then show "(ucast code :: 32 word) = 3" by simp
qed

lemma core_flag_outside_low7: "(w OR (if core then 0x80 else 0)) AND (mask 7 :: 32 word) = w AND mask 7"
proof -
  have "(0x80 :: 32 word) AND mask 7 = 0" by (simp add: mask_eq_exp_minus_1)
  then show ?thesis by (simp add: bit.conj_disj_distrib2)
qed

lemma signal_low7_nonzero:
  assumes "1 \<le> sig" and "sig \<le> 126"
  shows "(of_nat sig :: 32 word) AND mask 7 \<noteq> 0"
proof -
  have "(of_nat sig :: 32 word) AND mask 7 = take_bit 7 (of_nat sig)"
    by (simp add: take_bit_eq_mask)
  also have "\<dots> = of_nat (take_bit 7 sig)"
    by (simp add: take_bit_of_nat)
  also have "take_bit 7 sig = sig"
    using assms by (simp add: take_bit_nat_eq_self)
  finally have e: "(of_nat sig :: 32 word) AND mask 7 = of_nat sig" .
  have "unat (of_nat sig :: 32 word) = sig"
    using assms by (simp add: unat_of_nat)
  then have "(of_nat sig :: 32 word) \<noteq> 0"
    using assms by (metis unat_0 not_one_le_zero)
  with e show ?thesis by simp
qed


lemma exited_WIFEXITED: "WIFEXITED (waitpid (Exited code))"
  unfolding WIFEXITED_def WTERMSIG_def waitpid.simps low7_mask
  by (rule bit_word_eqI) (simp add: bit_simps)

lemma exited_WEXITSTATUS: "WEXITSTATUS (waitpid (Exited code)) = ucast code"
  unfolding WEXITSTATUS_def waitpid.simps exit_status_mask
  by (rule bit_word_eqI) (auto simp: bit_simps dest: bit_imp_le_length)

lemma signaled_WIFEXITED:
  assumes "1 \<le> sig" and "sig \<le> 126"
  shows "\<not> WIFEXITED (waitpid (Signaled sig core))"
  unfolding WIFEXITED_def WTERMSIG_def waitpid.simps low7_mask core_flag_outside_low7
  using signal_low7_nonzero [OF assms] by simp

lemma restart_iff:
  assumes "signal_ok t"
  shows "WIFEXITED (waitpid t) \<and> WEXITSTATUS (waitpid t) = 3 \<longleftrightarrow> t = Exited 3"
proof (cases t)
  case (Exited code)
  then show ?thesis
    by (simp only: exited_WIFEXITED exited_WEXITSTATUS ucast_eq_3 worker_end.inject simp_thms)
next
  case (Signaled sig core)
  then show ?thesis
    using assms signaled_WIFEXITED [of sig core] by (simp add: signal_ok_def)
qed

lemma fork_loop_step:
  assumes "signal_ok t"
  shows "main_fork_loop forks (t # ts) =
           (if t = Exited 3 then main_fork_loop (Suc forks) ts else (STOPPED, Suc forks))"
  using restart_iff [OF assms] by (simp add: Let_def)

lemma fork_loop_restarts:
  "main_fork_loop forks (replicate n (Exited 3) @ ts) = main_fork_loop (forks + n) ts"
proof (induction n arbitrary: forks)
  case 0
  then show ?case by simp
next
  case (Suc n)
  have "main_fork_loop forks (replicate (Suc n) (Exited 3) @ ts) =
          main_fork_loop (Suc forks) (replicate n (Exited 3) @ ts)"
    using fork_loop_step [of "Exited 3" forks "replicate n (Exited 3) @ ts"]
    by (simp add: signal_ok_def)
  then show ?case by (simp add: Suc.IH)
qed

lemma replicate_3: "replicate 3 x = [x, x, x]"
  by (simp add: numeral_3_eq_3)

lemma fork_loop_stops:
  assumes "signal_ok t" and "t \<noteq> Exited 3"
  shows "main_fork_loop 0 (replicate n (Exited 3) @ t # ts) = (STOPPED, n + 1)"
proof -
  have "main_fork_loop 0 (replicate n (Exited 3) @ t # ts) = main_fork_loop (0 + n) (t # ts)"
    by (rule fork_loop_restarts)
  also have "\<dots> = (STOPPED, n + 1)"
    using assms(2) by (simp only: fork_loop_step [OF assms(1)]) simp
  finally show ?thesis .
qed

lemma fork_loop_running:
  "main_fork_loop 0 (replicate n (Exited 3)) = (RUNNING, n + 1)"
proof -
  have "main_fork_loop 0 (replicate n (Exited 3) @ []) = main_fork_loop (0 + n) []"
    by (rule fork_loop_restarts)
  then show ?thesis by simp
qed

section \<open>Clamping the arguments\<close>

lemma sint_pos_unat:
  fixes p :: "32 word"
  assumes "1 \<le> sint p"
  shows "1 \<le> unat p"
proof -
  have "p \<noteq> 0" using assms by auto
  then have "unat p \<noteq> 0" by (simp add: unat_eq_zero)
  then show ?thesis by simp
qed

lemma sint_in_byte:
  fixes sz :: "32 word"
  assumes "1 \<le> sint sz" and "sint sz \<le> 222"
  shows "uint (ucast sz :: 8 word) = sint sz"
proof -
  have "uint sz = take_bit 32 (sint sz)"
    using uint_sint [of sz] by simp
  also have "\<dots> = sint sz"
    using assms by (simp add: take_bit_int_eq_self)
  finally have u: "sint sz = uint sz" by simp
  have "uint (ucast sz :: 8 word) = take_bit 8 (uint sz)"
    using unsigned_ucast_eq [of sz, where ?'c = 8 and ?'a = int] by simp
  also have "\<dots> = uint sz"
    using assms u by (simp add: take_bit_int_eq_self)
  finally show ?thesis using u by simp
qed

lemma clamp_size_cases:
  "uint (clamp_size a) = (if sint a < 1 then 1 else if 222 < sint a then 222 else sint a)"
proof -
  have "sint (1 :: 32 word) = 1" "sint (222 :: 32 word) = 222" by simp_all
  then show ?thesis
    using sint_in_byte [of a]
    by (auto simp: clamp_size_def Let_def)
qed

section \<open>Configuring a pin with the edge mode off\<close>



section \<open>The claims\<close>

text \<open>
  C1. Coalescing, for every slot, with or without a handler: mask the slot and deliver
  any number \<open>n > 0\<close> of notifications; the state is the one after a single notification,
  in which the slot is masked and \<open>pending\<close> is set and nothing has been dispatched. When
  the slot has a handler, the following unmask invokes that handler exactly once and
  clears \<open>pending\<close>. For a timer slot (\<^verbatim>\<open>hal_lp_timer_irq_disable\<close>, \<^verbatim>\<open>pl_timer_handler\<close>,
  \<^verbatim>\<open>hal_lp_timer_irq_enable\<close>) and for a pin slot (\<^verbatim>\<open>hal_gpio_irq_disable\<close>,
  \<^verbatim>\<open>gpio_irq_callback\<close>, \<^verbatim>\<open>hal_gpio_irq_enable\<close>). The instance below is the scenario with
  two expiry notifications, and the same run on a slot that has no handler.
\<close>

theorem masked_notifications_coalesce:
  "(tid < length (lptim s) \<and> 0 < n \<longrightarrow>
      (\<exists>s1.
         run os drv (Timer_Irq_Disable tid # replicate n (Timer_Expiry (int tid))) s = Inr s1 \<and>
         run os drv [Timer_Irq_Disable tid, Timer_Expiry (int tid)] s = Inr s1 \<and>
         s1 = s\<lparr>lptim := (lptim s)[tid := (lptim s ! tid)
                  \<lparr>lp_timer_t.blocked := True, lp_timer_t.pending := True\<rparr>]\<rparr> \<and>
         lp_timer_t.pending (lptim s1 ! tid) \<and> dispatched s1 = dispatched s \<and>
         (\<not> timer_handler_none (lptim s ! tid) \<longrightarrow>
            (\<exists>s2.
               hal_lp_timer_irq_enable tid s1 = Inr s2 \<and>
               dispatched s2 = dispatched s @
                 [Dispatch (Timer_Slot tid)
                    (hal_lp_timer_irq_t.callback (tmr_irq (lptim s ! tid)))
                    (hal_lp_timer_irq_t.cb_context (tmr_irq (lptim s ! tid)))] \<and>
               \<not> lp_timer_t.pending (lptim s2 ! tid) \<and>
               \<not> lp_timer_t.blocked (lptim s2 ! tid)))))
   \<and> (i = unat (ucast (p - 2) :: 8 word) \<and> i < P_NUM s \<and> 0 < n \<longrightarrow>
      (\<exists>s1.
         run os drv (Gpio_Irq_Disable # replicate n (Gpio_Callback p level tick)) s = Inr s1 \<and>
         run os drv [Gpio_Irq_Disable, Gpio_Callback p level tick] s = Inr s1 \<and>
         s1 = s\<lparr>gpio := (map (\<lambda>x. x\<lparr>gpio_t.blocked := True\<rparr>) (gpio s))
                  [i := (gpio s ! i)\<lparr>gpio_t.blocked := True, gpio_t.pending := True\<rparr>]\<rparr> \<and>
         gpio_t.pending (gpio s1 ! i) \<and>
         dispatched s1 = dispatched s \<and>
         (\<not> pin_handler_none (irq_mem s) (gpio s ! i) \<longrightarrow>
            dispatches_of (Pin_Slot i) (dispatched (hal_gpio_irq_enable s1)) =
              dispatches_of (Pin_Slot i) (dispatched s) @
                pin_dispatch (irq_mem s) i (gpio s ! i) \<and>
            length (pin_dispatch (irq_mem s) i (gpio s ! i)) = 1 \<and>
            \<not> gpio_t.pending (gpio (hal_gpio_irq_enable s1) ! i) \<and>
            \<not> gpio_t.blocked (gpio (hal_gpio_irq_enable s1) ! i))))"
proof (intro conjI impI)
  assume a: "tid < length (lptim s) \<and> 0 < n"
  then obtain m where n: "n = Suc m" by (cases n) auto
  let ?s0 = "s\<lparr>lptim := (lptim s)[tid := (lptim s ! tid)\<lparr>lp_timer_t.blocked := True\<rparr>]\<rparr>"
  let ?s1 = "s\<lparr>lptim := (lptim s)[tid := (lptim s ! tid)
               \<lparr>lp_timer_t.blocked := True, lp_timer_t.pending := True\<rparr>]\<rparr>"
  have d: "hal_lp_timer_irq_disable tid s = Inr ?s0"
    using a by (simp add: hal_lp_timer_irq_disable_def)
  have e: "\<And>k. run os drv (replicate (Suc k) (Timer_Expiry (int tid))) ?s0 = Inr ?s1"
    using a by (subst run_expiries_masked) simp_all
  have r1: "run os drv (Timer_Irq_Disable tid # replicate n (Timer_Expiry (int tid))) s = Inr ?s1"
    using d e [of m] by (simp add: n)
  have r2: "run os drv [Timer_Irq_Disable tid, Timer_Expiry (int tid)] s = Inr ?s1"
    using d e [of 0] by simp
  have t3: "lp_timer_t.pending (lptim ?s1 ! tid)" using a by simp
  have t4: "dispatched ?s1 = dispatched s" by simp
  have t5: "\<exists>s2.
         hal_lp_timer_irq_enable tid ?s1 = Inr s2 \<and>
         dispatched s2 = dispatched s @
           [Dispatch (Timer_Slot tid) (hal_lp_timer_irq_t.callback (tmr_irq (lptim s ! tid)))
              (hal_lp_timer_irq_t.cb_context (tmr_irq (lptim s ! tid)))] \<and>
         \<not> lp_timer_t.pending (lptim s2 ! tid) \<and> \<not> lp_timer_t.blocked (lptim s2 ! tid)"
    if h: "\<not> timer_handler_none (lptim s ! tid)"
  proof -
    let ?s2 = "?s1\<lparr>lptim := (lptim ?s1)[tid := (lptim ?s1 ! tid)
                  \<lparr>lp_timer_t.blocked := False, lp_timer_t.pending := False\<rparr>],
                 dispatched := dispatched ?s1 @ timer_dispatch tid (lptim ?s1 ! tid)\<rparr>"
    have u: "hal_lp_timer_irq_enable tid ?s1 = Inr ?s2"
      using a h by (intro hal_lp_timer_irq_enable_flush) (simp_all add: timer_handler_none_def)
    have td: "timer_dispatch tid (lptim ?s1 ! tid) =
        [Dispatch (Timer_Slot tid) (hal_lp_timer_irq_t.callback (tmr_irq (lptim s ! tid)))
           (hal_lp_timer_irq_t.cb_context (tmr_irq (lptim s ! tid)))]"
      using a h by (simp add: timer_dispatch_def timer_handler_none_def)
    have t6: "dispatched ?s2 = dispatched s @
             [Dispatch (Timer_Slot tid) (hal_lp_timer_irq_t.callback (tmr_irq (lptim s ! tid)))
                (hal_lp_timer_irq_t.cb_context (tmr_irq (lptim s ! tid)))]"
      using td by simp
    have t7: "\<not> lp_timer_t.pending (lptim ?s2 ! tid)" using a by simp
    have t8: "\<not> lp_timer_t.blocked (lptim ?s2 ! tid)" using a by simp
    show ?thesis by (intro exI [of _ ?s2] conjI u t6 t7 t8)
  qed
  show "\<exists>s1.
         run os drv (Timer_Irq_Disable tid # replicate n (Timer_Expiry (int tid))) s = Inr s1 \<and>
         run os drv [Timer_Irq_Disable tid, Timer_Expiry (int tid)] s = Inr s1 \<and>
         s1 = s\<lparr>lptim := (lptim s)[tid := (lptim s ! tid)
                  \<lparr>lp_timer_t.blocked := True, lp_timer_t.pending := True\<rparr>]\<rparr> \<and>
         lp_timer_t.pending (lptim s1 ! tid) \<and> dispatched s1 = dispatched s \<and>
         (\<not> timer_handler_none (lptim s ! tid) \<longrightarrow>
            (\<exists>s2.
               hal_lp_timer_irq_enable tid s1 = Inr s2 \<and>
               dispatched s2 = dispatched s @
                 [Dispatch (Timer_Slot tid)
                    (hal_lp_timer_irq_t.callback (tmr_irq (lptim s ! tid)))
                    (hal_lp_timer_irq_t.cb_context (tmr_irq (lptim s ! tid)))] \<and>
               \<not> lp_timer_t.pending (lptim s2 ! tid) \<and>
               \<not> lp_timer_t.blocked (lptim s2 ! tid)))"
    using t5 by (intro exI [of _ ?s1] conjI r1 r2 refl t3 t4) blast
next
  assume a: "i = unat (ucast (p - 2) :: 8 word) \<and> i < P_NUM s \<and> 0 < n"
  then have ii: "i = unat (ucast (p - 2) :: 8 word)" and b: "i < P_NUM s \<and> 0 < n"
    by blast+
  from b obtain m where n: "n = Suc m" by (cases n) auto
  have len: "i < length (gpio s)" using b by (simp add: P_NUM_def)
  let ?s0 = "hal_gpio_irq_disable s"
  let ?s1 = "?s0\<lparr>gpio := (gpio ?s0)[i := (gpio ?s0 ! i)\<lparr>gpio_t.pending := True\<rparr>]\<rparr>"
  let ?s1' = "s\<lparr>gpio := (map (\<lambda>x. x\<lparr>gpio_t.blocked := True\<rparr>) (gpio s))
                  [i := (gpio s ! i)\<lparr>gpio_t.blocked := True, gpio_t.pending := True\<rparr>]\<rparr>"
  have s0: "gpio ?s0 = map (\<lambda>x. x\<lparr>gpio_t.blocked := True\<rparr>) (gpio s)"
    "dispatched ?s0 = dispatched s" "irq_mem ?s0 = irq_mem s"
    by (simp_all add: hal_gpio_irq_disable_eq)
  have e: "\<And>k. run os drv (replicate (Suc k) (Gpio_Callback p level tick)) ?s0 = Inr ?s1"
    using len by (intro run_callbacks_masked [OF ii]) (simp_all add: P_NUM_def s0)
  have r1: "run os drv (Gpio_Irq_Disable # replicate n (Gpio_Callback p level tick)) s = Inr ?s1"
    using e [of m] by (simp add: n)
  have r2: "run os drv [Gpio_Irq_Disable, Gpio_Callback p level tick] s = Inr ?s1"
    using e [of 0] by simp
  have eq: "?s1 = ?s1'"
    using len by (simp add: hal_gpio_irq_disable_eq)
  have g1: "gpio ?s1 ! i = (gpio s ! i)\<lparr>gpio_t.blocked := True, gpio_t.pending := True\<rparr>"
    using len by (simp add: s0)
  have m1: "irq_mem ?s1 = irq_mem s" by (simp add: s0)
  have p1: "i < P_NUM ?s1" using len by (simp add: P_NUM_def s0)
  have c3: "gpio_t.pending (gpio ?s1 ! i)"
    unfolding g1 by simp
  have c4: "dispatched ?s1 = dispatched s"
    by (simp add: s0)
  have c5: "dispatches_of (Pin_Slot i) (dispatched (hal_gpio_irq_enable ?s1)) =
          dispatches_of (Pin_Slot i) (dispatched s) @ pin_dispatch (irq_mem s) i (gpio s ! i) \<and>
        length (pin_dispatch (irq_mem s) i (gpio s ! i)) = 1 \<and>
        \<not> gpio_t.pending (gpio (hal_gpio_irq_enable ?s1) ! i) \<and>
        \<not> gpio_t.blocked (gpio (hal_gpio_irq_enable ?s1) ! i)"
    if h: "\<not> pin_handler_none (irq_mem s) (gpio s ! i)"
  proof -
    have hn: "\<not> pin_handler_none (irq_mem s) (gpio ?s1 ! i)"
      using h unfolding g1 by (simp add: pin_handler_none_def)
    have fl: "pin_flush (irq_mem s) i (gpio ?s1 ! i) = pin_dispatch (irq_mem s) i (gpio s ! i)"
      unfolding g1 by (simp add: pin_flush_def pin_dispatch_def pin_handler_none_def)
    have um: "pin_unmasked (irq_mem s) (gpio ?s1 ! i) =
        (gpio s ! i)\<lparr>gpio_t.blocked := False, gpio_t.pending := False\<rparr>"
      using hn unfolding pin_unmasked_def g1 by simp
    have d5: "dispatches_of (Pin_Slot i) (dispatched (hal_gpio_irq_enable ?s1)) =
        dispatches_of (Pin_Slot i) (dispatched s) @ pin_dispatch (irq_mem s) i (gpio s ! i)"
      by (simp only: dispatches_of_irq_enable c4 m1 fl p1 if_True)
    have d6: "length (pin_dispatch (irq_mem s) i (gpio s ! i)) = 1"
      using h by (simp add: pin_dispatch_attached)
    have d7: "\<not> gpio_t.pending (gpio (hal_gpio_irq_enable ?s1) ! i)"
      by (simp only: gpio_irq_enable_nth [OF p1] m1 um) simp
    have d8: "\<not> gpio_t.blocked (gpio (hal_gpio_irq_enable ?s1) ! i)"
      by (simp only: gpio_irq_enable_nth [OF p1] m1 um) simp
    show ?thesis by (intro conjI d5 d6 d7 d8)
  qed
  show "\<exists>s1.
         run os drv (Gpio_Irq_Disable # replicate n (Gpio_Callback p level tick)) s = Inr s1 \<and>
         run os drv [Gpio_Irq_Disable, Gpio_Callback p level tick] s = Inr s1 \<and>
         s1 = s\<lparr>gpio := (map (\<lambda>x. x\<lparr>gpio_t.blocked := True\<rparr>) (gpio s))
                  [i := (gpio s ! i)\<lparr>gpio_t.blocked := True, gpio_t.pending := True\<rparr>]\<rparr> \<and>
         gpio_t.pending (gpio s1 ! i) \<and>
         dispatched s1 = dispatched s \<and>
         (\<not> pin_handler_none (irq_mem s) (gpio s ! i) \<longrightarrow>
            dispatches_of (Pin_Slot i) (dispatched (hal_gpio_irq_enable s1)) =
              dispatches_of (Pin_Slot i) (dispatched s) @
                pin_dispatch (irq_mem s) i (gpio s ! i) \<and>
            length (pin_dispatch (irq_mem s) i (gpio s ! i)) = 1 \<and>
            \<not> gpio_t.pending (gpio (hal_gpio_irq_enable s1) ! i) \<and>
            \<not> gpio_t.blocked (gpio (hal_gpio_irq_enable s1) ! i))"
    using c5 by (intro exI [of _ ?s1] conjI r1 r2 eq c3 c4) blast
qed

theorem masked_notifications_coalesce_witness:
  "(1::nat) < length (lptim (ex_state False False False False)) \<and> (0::nat) < 2 \<and>
   \<not> timer_handler_none (lptim (ex_state False False False False) ! 1) \<and>
   unat (ucast ((4 :: 32 word) - 2) :: 8 word) < P_NUM (ex_state False False False False) \<and>
   \<not> pin_handler_none (irq_mem (ex_state False False False False))
       (gpio (ex_state False False False False) !
          unat (ucast ((4 :: 32 word) - 2) :: 8 word)) \<and>
   run os_ok drv_ok [Timer_Irq_Disable 1, Timer_Expiry 1, Timer_Expiry 1]
       (ex_state False False False False) = Inr (ex_state True True False False) \<and>
   hal_lp_timer_irq_enable 1 (ex_state True True False False) =
     Inr ((ex_state False False False False)\<lparr>dispatched := [Dispatch (Timer_Slot 1) 9 7]\<rparr>) \<and>
   map_sum (\<lambda>e. e) dispatched
     (run os_ok drv_ok [Gpio_Irq_Disable, Gpio_Callback 4 1 0, Gpio_Callback 4 1 0,
        Gpio_Irq_Enable] (ex_state False False False False)) =
     Inr [Dispatch (Pin_Slot 2) 6 5] \<and>
   timer_handler_none (lptim (ex_bare False False False False) ! 0) \<and>
   run os_ok drv_ok [Timer_Irq_Disable 0, Timer_Expiry 0, Timer_Expiry 0]
       (ex_bare False False False False) = Inr (ex_bare True True False False) \<and>
   run os_ok drv_ok [Timer_Irq_Disable 0, Timer_Expiry 0]
       (ex_bare False False False False) = Inr (ex_bare True True False False)"
  using masked_notifications_coalesce
          [of 1 "ex_state False False False False" 2 os_ok drv_ok 2 4 1 0]
    masked_notifications_coalesce
          [of 0 "ex_bare False False False False" 2 os_ok drv_ok 0 2 1 0]
  by (simp add: ex_defs hal_lp_timer_irq_disable_def pl_timer_handler_def
        hal_lp_timer_irq_enable_def gpio_irq_callback_def hal_gpio_irq_disable_eq
        hal_gpio_irq_enable_eq Let_def replicate_2)

text \<open>
  C2. After a worker ends, the supervisor forks a new one if and only if the worker left
  with exit code 3; any other exit code, and any death by a signal, stops the supervisor.
  So when \<open>n\<close> workers in a row leave with code 3 and the next one ends otherwise, exactly
  \<open>n + 1\<close> workers are forked, whatever might follow; three exits with code 3 and then an
  exit with code 0 make four forks.
\<close>

theorem supervisor_restarts_on_exit_3:
  "(signal_ok t \<longrightarrow>
      main_fork_loop forks (t # ts) =
        (if t = Exited 3 then main_fork_loop (Suc forks) ts else (STOPPED, Suc forks)))
   \<and> (signal_ok t \<and> t \<noteq> Exited 3 \<longrightarrow>
      main_fork_loop 0 (replicate n (Exited 3) @ t # ts) = (STOPPED, n + 1))
   \<and> main_fork_loop 0 (replicate n (Exited 3)) = (RUNNING, n + 1)
   \<and> main_fork_loop 0 ([Exited 3, Exited 3, Exited 3, Exited 0] @ ts) = (STOPPED, 4)"
proof (intro conjI impI)
  assume "signal_ok t"
  then show "main_fork_loop forks (t # ts) =
        (if t = Exited 3 then main_fork_loop (Suc forks) ts else (STOPPED, Suc forks))"
    by (rule fork_loop_step)
next
  assume "signal_ok t \<and> t \<noteq> Exited 3"
  then have "signal_ok t" and "t \<noteq> Exited 3" by blast+
  then show "main_fork_loop 0 (replicate n (Exited 3) @ t # ts) = (STOPPED, n + 1)"
    by (rule fork_loop_stops)
next
  show "main_fork_loop 0 (replicate n (Exited 3)) = (RUNNING, n + 1)"
    by (rule fork_loop_running)
next
  have "main_fork_loop 0 (replicate 3 (Exited 3) @ Exited 0 # ts) = (STOPPED, 3 + 1)"
    by (rule fork_loop_stops) (simp_all add: signal_ok_def)
  then show "main_fork_loop 0 ([Exited 3, Exited 3, Exited 3, Exited 0] @ ts) = (STOPPED, 4)"
    by (simp only: replicate_3 append.simps) simp
qed

theorem supervisor_restarts_on_exit_3_witness:
  "signal_ok (Signaled 9 False) \<and> Signaled 9 False \<noteq> Exited 3 \<and>
   main_fork_loop 0 [Exited 3, Exited 3, Signaled 9 False, Exited 3] = (STOPPED, 3) \<and>
   main_fork_loop 1 [Exited 1, Exited 3] = (STOPPED, 2)"
proof -
  have h: "signal_ok (Signaled 9 False)" "signal_ok (Exited 1)"
    by (simp_all add: signal_ok_def)
  have a: "main_fork_loop 0 (replicate 2 (Exited 3) @ Signaled 9 False # [Exited 3]) =
             (STOPPED, 2 + 1)"
    using supervisor_restarts_on_exit_3 [of "Signaled 9 False" 0 "[Exited 3]" 2] h(1)
    by blast
  have b: "main_fork_loop 1 (Exited 1 # [Exited 3]) =
             (if Exited 1 = Exited 3 then main_fork_loop (Suc 1) [Exited 3] else (STOPPED, Suc 1))"
    using supervisor_restarts_on_exit_3 [of "Exited 1" 1 "[Exited 3]" 0] h(2)
    by blast
  from a have a': "main_fork_loop 0 [Exited 3, Exited 3, Signaled 9 False, Exited 3] =
      (STOPPED, 3)"
    by (simp only: replicate_2 append.simps) simp
  from b have b': "main_fork_loop 1 [Exited 1, Exited 3] = (STOPPED, 2)"
    by (simp only: worker_end.inject) simp
  from h(1) a' b' show ?thesis by simp
qed

text \<open>
  C3, as amended. Unmasking a slot that has no handler invokes no handler and leaves
  \<open>pending\<close> as it was: the slot is only unmasked. For the timer slots
  (\<^verbatim>\<open>hal_lp_timer_irq_enable\<close>) and the pin slots (\<^verbatim>\<open>hal_gpio_irq_enable\<close>). The
  specification has \<open>pending\<close> cleared.
\<close>

theorem unmask_without_handler:
  "(tid < length (lptim s) \<and> timer_handler_none (lptim s ! tid) \<longrightarrow>
      hal_lp_timer_irq_enable tid s =
        Inr (s\<lparr>lptim := (lptim s)[tid := (lptim s ! tid)\<lparr>lp_timer_t.blocked := False\<rparr>]\<rparr>))
   \<and> (i < P_NUM s \<and> pin_handler_none (irq_mem s) (gpio s ! i) \<longrightarrow>
      gpio (hal_gpio_irq_enable s) ! i = (gpio s ! i)\<lparr>gpio_t.blocked := False\<rparr> \<and>
      dispatches_of (Pin_Slot i) (dispatched (hal_gpio_irq_enable s)) =
        dispatches_of (Pin_Slot i) (dispatched s))"
proof (intro conjI impI)
  assume "tid < length (lptim s) \<and> timer_handler_none (lptim s ! tid)"
  then show "hal_lp_timer_irq_enable tid s =
        Inr (s\<lparr>lptim := (lptim s)[tid := (lptim s ! tid)\<lparr>lp_timer_t.blocked := False\<rparr>]\<rparr>)"
    by (simp add: hal_lp_timer_irq_enable_idle)
next
  assume a: "i < P_NUM s \<and> pin_handler_none (irq_mem s) (gpio s ! i)"
  then show "gpio (hal_gpio_irq_enable s) ! i = (gpio s ! i)\<lparr>gpio_t.blocked := False\<rparr>"
    by (simp add: gpio_irq_enable_nth pin_unmasked_def)
  have "pin_flush (irq_mem s) i (gpio s ! i) = []"
    using a by (simp add: pin_flush_def pin_dispatch_def)
  then show "dispatches_of (Pin_Slot i) (dispatched (hal_gpio_irq_enable s)) =
        dispatches_of (Pin_Slot i) (dispatched s)"
    by (simp add: dispatches_of_irq_enable)
qed

theorem unmask_without_handler_witness:
  "(0::nat) < length (lptim (ex_bare True True True True)) \<and>
   timer_handler_none (lptim (ex_bare True True True True) ! 0) \<and>
   (0::nat) < P_NUM (ex_bare True True True True) \<and>
   pin_handler_none (irq_mem (ex_bare True True True True))
     (gpio (ex_bare True True True True) ! 0) \<and>
   hal_lp_timer_irq_enable 0 (ex_bare True True True True) = Inr (ex_bare False True True True) \<and>
   gpio (hal_gpio_irq_enable (ex_bare True True True True)) ! 0 =
     gpio_zero\<lparr>gpio_t.blocked := False, gpio_t.pending := True\<rparr> \<and>
   dispatches_of (Pin_Slot 0) (dispatched (hal_gpio_irq_enable (ex_bare True True True True))) = []"
  using unmask_without_handler [of 0 "ex_bare True True True True" 0]
  by (simp add: ex_defs dispatches_of_def)

text \<open>
  The statement of the specification fails here: timer 0 is masked after boot, one expiry
  is delivered, and the timer, which has no handler, is unmasked; \<open>pending\<close> is still set.
\<close>

theorem unmask_without_handler_counterexample:
  "run os_ok drv_ok [Timer_Irq_Disable 0, Timer_Expiry 0] (hal_boot 2) =
     Inr (ex_bare True True False False)
   \<and> timer_handler_none (lptim (ex_bare True True False False) ! 0)
   \<and> hal_lp_timer_irq_enable 0 (ex_bare True True False False) =
     Inr (ex_bare False True False False)
   \<and> lp_timer_t.pending (lptim (ex_bare False True False False) ! 0)"
  by (simp add: and_then_def hal_lp_timer_irq_disable_def pl_timer_handler_def
        hal_lp_timer_irq_enable_def hal_boot_def HAL_LP_TIMER_NB_def numeral_2_eq_2
        Let_def ex_defs)

text \<open>
  C4, as amended. In the initial state every timer slot and every pin slot is unmasked
  (\<open>blocked\<close> is false) and not pending: static storage starts at zero. The specification
  has the slots masked initially.
\<close>

theorem boot_slots_unmasked:
  "(tid < HAL_LP_TIMER_NB \<longrightarrow>
      \<not> lp_timer_t.blocked (lptim (hal_boot n) ! tid) \<and>
      \<not> lp_timer_t.pending (lptim (hal_boot n) ! tid))
   \<and> (i < P_NUM (hal_boot n) \<longrightarrow>
      \<not> gpio_t.blocked (gpio (hal_boot n) ! i) \<and> \<not> gpio_t.pending (gpio (hal_boot n) ! i))
   \<and> length (lptim (hal_boot n)) = HAL_LP_TIMER_NB \<and> P_NUM (hal_boot n) = n"
  by (simp add: hal_boot_def P_NUM_def lptim_zero_def gpio_zero_def)

theorem boot_slots_unmasked_witness:
  "(1::nat) < HAL_LP_TIMER_NB \<and> (2::nat) < P_NUM (hal_boot 3) \<and>
   \<not> lp_timer_t.blocked (lptim (hal_boot 3) ! 1) \<and>
   \<not> lp_timer_t.pending (lptim (hal_boot 3) ! 1) \<and>
   \<not> gpio_t.blocked (gpio (hal_boot 3) ! 2) \<and> \<not> gpio_t.pending (gpio (hal_boot 3) ! 2)"
  using boot_slots_unmasked [of 1 3 2]
  by (simp add: HAL_LP_TIMER_NB_def)

text \<open>
  The statement of the specification fails on the first timer slot after boot.
\<close>

theorem boot_slots_masked_counterexample:
  "\<not> (lp_timer_t.blocked (lptim (hal_boot 1) ! 0) \<and> \<not> lp_timer_t.pending (lptim (hal_boot 1) ! 0))"
  by (simp add: boot_simps lptim_zero_def)

text \<open>
  C5, as amended. Unmasking dispatches at most one handler per slot. When the slot is
  pending and has a handler, whether it was masked or not, unmasking dispatches that
  handler once and clears \<open>pending\<close>; otherwise it dispatches nothing and leaves
  \<open>pending\<close> as it is. In both cases the slot is unmasked afterwards and nothing else
  changes. So unmasking a slot leaves the slot as it is exactly when the slot is already
  unmasked and is not pending or has no handler. An unmasked slot can be pending with a
  handler attached (see the run below). The specification has every unmask of an unmasked
  slot do nothing.
\<close>

theorem unmask_dispatches_at_most_once:
  "(tid < length (lptim s) \<longrightarrow>
      hal_lp_timer_irq_enable tid s =
        Inr (if lp_timer_t.pending (lptim s ! tid) \<and> \<not> timer_handler_none (lptim s ! tid)
             then s\<lparr>lptim := (lptim s)[tid := (lptim s ! tid)
                       \<lparr>lp_timer_t.blocked := False, lp_timer_t.pending := False\<rparr>],
                     dispatched := dispatched s @
                       [Dispatch (Timer_Slot tid)
                          (hal_lp_timer_irq_t.callback (tmr_irq (lptim s ! tid)))
                          (hal_lp_timer_irq_t.cb_context (tmr_irq (lptim s ! tid)))]\<rparr>
             else s\<lparr>lptim := (lptim s)[tid := (lptim s ! tid)
                       \<lparr>lp_timer_t.blocked := False\<rparr>]\<rparr>) \<and>
      (\<exists>s'. hal_lp_timer_irq_enable tid s = Inr s' \<and>
         dispatched s' = dispatched s @
           (if lp_timer_t.pending (lptim s ! tid) then timer_dispatch tid (lptim s ! tid) else []) \<and>
         length (timer_dispatch tid (lptim s ! tid)) \<le> 1 \<and>
         \<not> lp_timer_t.blocked (lptim s' ! tid) \<and>
         lp_timer_t.pending (lptim s' ! tid) =
           (lp_timer_t.pending (lptim s ! tid) \<and> timer_handler_none (lptim s ! tid)) \<and>
         (if \<not> lp_timer_t.blocked (lptim s ! tid) \<and>
             (\<not> lp_timer_t.pending (lptim s ! tid) \<or> timer_handler_none (lptim s ! tid))
          then s' = s else s' \<noteq> s)))
   \<and> (i < P_NUM s \<longrightarrow>
      gpio (hal_gpio_irq_enable s) ! i =
        (if gpio_t.pending (gpio s ! i) \<and> \<not> pin_handler_none (irq_mem s) (gpio s ! i)
         then (gpio s ! i)\<lparr>gpio_t.blocked := False, gpio_t.pending := False\<rparr>
         else (gpio s ! i)\<lparr>gpio_t.blocked := False\<rparr>) \<and>
      dispatches_of (Pin_Slot i) (dispatched (hal_gpio_irq_enable s)) =
        dispatches_of (Pin_Slot i) (dispatched s) @
          (if gpio_t.pending (gpio s ! i) \<and> \<not> pin_handler_none (irq_mem s) (gpio s ! i)
           then [Dispatch (Pin_Slot i)
                   (hal_gpio_irq_t.callback (irq_mem s (irq (gpio s ! i))))
                   (hal_gpio_irq_t.cb_context (irq_mem s (irq (gpio s ! i))))]
           else []) \<and>
      dispatches_of (Pin_Slot i) (dispatched (hal_gpio_irq_enable s)) =
        dispatches_of (Pin_Slot i) (dispatched s) @
          (if gpio_t.pending (gpio s ! i) then pin_dispatch (irq_mem s) i (gpio s ! i) else []) \<and>
      length (pin_dispatch (irq_mem s) i (gpio s ! i)) \<le> 1 \<and>
      \<not> gpio_t.blocked (gpio (hal_gpio_irq_enable s) ! i) \<and>
      gpio_t.pending (gpio (hal_gpio_irq_enable s) ! i) =
        (gpio_t.pending (gpio s ! i) \<and> pin_handler_none (irq_mem s) (gpio s ! i)) \<and>
      (if \<not> gpio_t.blocked (gpio s ! i) \<and>
          (\<not> gpio_t.pending (gpio s ! i) \<or> pin_handler_none (irq_mem s) (gpio s ! i))
       then gpio (hal_gpio_irq_enable s) ! i = gpio s ! i
       else gpio (hal_gpio_irq_enable s) ! i \<noteq> gpio s ! i))
   \<and> lptim (hal_gpio_irq_enable s) = lptim s
   \<and> irq_mem (hal_gpio_irq_enable s) = irq_mem s
   \<and> isr (hal_gpio_irq_enable s) = isr s
   \<and> length (gpio (hal_gpio_irq_enable s)) = length (gpio s)"
proof (intro conjI impI)
  assume t: "tid < length (lptim s)"
  let ?t = "lptim s ! tid"
  let ?r = "if lp_timer_t.pending ?t \<and> \<not> timer_handler_none ?t
             then s\<lparr>lptim := (lptim s)[tid := ?t
                       \<lparr>lp_timer_t.blocked := False, lp_timer_t.pending := False\<rparr>],
                     dispatched := dispatched s @
                       [Dispatch (Timer_Slot tid) (hal_lp_timer_irq_t.callback (tmr_irq ?t))
                          (hal_lp_timer_irq_t.cb_context (tmr_irq ?t))]\<rparr>
             else s\<lparr>lptim := (lptim s)[tid := ?t\<lparr>lp_timer_t.blocked := False\<rparr>]\<rparr>"
  show r: "hal_lp_timer_irq_enable tid s = Inr ?r"
  proof (cases "lp_timer_t.pending ?t \<and> \<not> timer_handler_none ?t")
    case True
    then show ?thesis
      using hal_lp_timer_irq_enable_flush [OF t] by (simp add: timer_dispatch_def)
  next
    case False
    then have "\<not> lp_timer_t.pending ?t \<or> timer_handler_none ?t" by blast
    from hal_lp_timer_irq_enable_idle [OF t this] show ?thesis
      by (simp only: if_not_P [OF False])
  qed
  have c1: "dispatched ?r = dispatched s @
           (if lp_timer_t.pending ?t then timer_dispatch tid ?t else [])"
    by (simp add: timer_dispatch_def)
  have c2: "length (timer_dispatch tid ?t) \<le> 1"
    by (rule length_timer_dispatch)
  have c3: "\<not> lp_timer_t.blocked (lptim ?r ! tid)"
    using t by simp
  have c4: "lp_timer_t.pending (lptim ?r ! tid) =
      (lp_timer_t.pending ?t \<and> timer_handler_none ?t)"
    using t by auto
  have c5: "if \<not> lp_timer_t.blocked ?t \<and> (\<not> lp_timer_t.pending ?t \<or> timer_handler_none ?t)
          then ?r = s else ?r \<noteq> s"
  proof (cases "\<not> lp_timer_t.blocked ?t \<and> (\<not> lp_timer_t.pending ?t \<or> timer_handler_none ?t)")
    case True
    then have "\<not> (lp_timer_t.pending ?t \<and> \<not> timer_handler_none ?t)" by blast
    then have "?r = s\<lparr>lptim := (lptim s)[tid := ?t\<lparr>lp_timer_t.blocked := False\<rparr>]\<rparr>"
      by (rule if_not_P)
    also have "\<dots> = s" using True by (simp add: lp_timer_unblock_id hal_lptim_id)
    finally show ?thesis unfolding if_P [OF True] .
  next
    case False
    have "?r \<noteq> s"
    proof
      assume "?r = s"
      then have "lp_timer_t.blocked (lptim ?r ! tid) = lp_timer_t.blocked ?t"
        and "lp_timer_t.pending (lptim ?r ! tid) = lp_timer_t.pending ?t"
        by (simp_all only:)
      with c3 c4 False show False by blast
    qed
    then show ?thesis unfolding if_not_P [OF False] .
  qed
  show "\<exists>s'. hal_lp_timer_irq_enable tid s = Inr s' \<and>
         dispatched s' = dispatched s @
           (if lp_timer_t.pending ?t then timer_dispatch tid ?t else []) \<and>
         length (timer_dispatch tid ?t) \<le> 1 \<and>
         \<not> lp_timer_t.blocked (lptim s' ! tid) \<and>
         lp_timer_t.pending (lptim s' ! tid) =
           (lp_timer_t.pending ?t \<and> timer_handler_none ?t) \<and>
         (if \<not> lp_timer_t.blocked ?t \<and> (\<not> lp_timer_t.pending ?t \<or> timer_handler_none ?t)
          then s' = s else s' \<noteq> s)"
    by (intro exI [of _ ?r] conjI r c1 c2 c3 c4 c5)
next
  assume i: "i < P_NUM s"
  let ?g = "gpio s ! i"
  show "gpio (hal_gpio_irq_enable s) ! i =
        (if gpio_t.pending ?g \<and> \<not> pin_handler_none (irq_mem s) ?g
         then ?g\<lparr>gpio_t.blocked := False, gpio_t.pending := False\<rparr>
         else ?g\<lparr>gpio_t.blocked := False\<rparr>)"
    by (simp only: gpio_irq_enable_nth [OF i] pin_unmasked_def)
  show "dispatches_of (Pin_Slot i) (dispatched (hal_gpio_irq_enable s)) =
        dispatches_of (Pin_Slot i) (dispatched s) @
          (if gpio_t.pending ?g \<and> \<not> pin_handler_none (irq_mem s) ?g
           then [Dispatch (Pin_Slot i) (hal_gpio_irq_t.callback (irq_mem s (irq ?g)))
                   (hal_gpio_irq_t.cb_context (irq_mem s (irq ?g)))]
           else [])"
    using i by (simp add: dispatches_of_irq_enable pin_flush_def pin_dispatch_def)
  show "dispatches_of (Pin_Slot i) (dispatched (hal_gpio_irq_enable s)) =
        dispatches_of (Pin_Slot i) (dispatched s) @
          (if gpio_t.pending ?g then pin_dispatch (irq_mem s) i ?g else [])"
    using i by (simp add: dispatches_of_irq_enable pin_flush_def)
  show "length (pin_dispatch (irq_mem s) i ?g) \<le> 1"
    by (rule length_pin_dispatch)
  show "\<not> gpio_t.blocked (gpio (hal_gpio_irq_enable s) ! i)"
    by (simp add: gpio_irq_enable_nth [OF i] pin_unmasked_def)
  show "gpio_t.pending (gpio (hal_gpio_irq_enable s) ! i) =
        (gpio_t.pending ?g \<and> pin_handler_none (irq_mem s) ?g)"
    by (auto simp: gpio_irq_enable_nth [OF i] pin_unmasked_def)
  show "if \<not> gpio_t.blocked ?g \<and> (\<not> gpio_t.pending ?g \<or> pin_handler_none (irq_mem s) ?g)
       then gpio (hal_gpio_irq_enable s) ! i = ?g
       else gpio (hal_gpio_irq_enable s) ! i \<noteq> ?g"
  proof -
    have a: "\<not> gpio_t.blocked ?g \<Longrightarrow> pin_unmasked (irq_mem s) ?g = ?g \<longleftrightarrow>
               (\<not> gpio_t.pending ?g \<or> pin_handler_none (irq_mem s) ?g)"
      by (cases ?g) (auto simp: pin_unmasked_def)
    have b: "gpio_t.blocked ?g \<Longrightarrow> pin_unmasked (irq_mem s) ?g \<noteq> ?g"
      by (cases ?g) (auto simp: pin_unmasked_def)
    show ?thesis using a b by (auto simp: gpio_irq_enable_nth [OF i])
  qed
next
  show "lptim (hal_gpio_irq_enable s) = lptim s"
    by (simp add: hal_gpio_irq_enable_eq)
  show "irq_mem (hal_gpio_irq_enable s) = irq_mem s"
    by (simp add: hal_gpio_irq_enable_eq)
  show "isr (hal_gpio_irq_enable s) = isr s"
    by (simp add: hal_gpio_irq_enable_eq)
  show "length (gpio (hal_gpio_irq_enable s)) = length (gpio s)"
    by (simp add: hal_gpio_irq_enable_eq)
qed

theorem unmask_dispatches_at_most_once_witness:
  "(1::nat) < length (lptim (ex_state False False False False)) \<and>
   (2::nat) < P_NUM (ex_state False False False False) \<and>
   hal_lp_timer_irq_enable 1 (ex_state False False False False) =
     Inr (ex_state False False False False) \<and>
   gpio (hal_gpio_irq_enable (ex_state False False False False)) ! 2 =
     gpio (ex_state False False False False) ! 2 \<and>
   dispatched (hal_gpio_irq_enable (ex_state False False False False)) = [] \<and>
   hal_lp_timer_irq_enable 1 (ex_state True True True True) =
     Inr ((ex_state False False True True)\<lparr>dispatched := [Dispatch (Timer_Slot 1) 9 7]\<rparr>) \<and>
   hal_lp_timer_irq_enable 1 (ex_state False True True True) =
     Inr ((ex_state False False True True)\<lparr>dispatched := [Dispatch (Timer_Slot 1) 9 7]\<rparr>) \<and>
   gpio (hal_gpio_irq_enable (ex_state True True True True)) ! 2 =
     gpio (ex_state True True False False) ! 2 \<and>
   gpio (hal_gpio_irq_enable (ex_state True True False True)) ! 2 =
     gpio (ex_state True True False False) ! 2 \<and>
   dispatched (hal_gpio_irq_enable (ex_state True True True True)) =
     [Dispatch (Pin_Slot 2) 6 5] \<and>
   dispatched (hal_gpio_irq_enable (ex_state True True False True)) =
     [Dispatch (Pin_Slot 2) 6 5]"
  using unmask_dispatches_at_most_once [of 1 "ex_state False False False False" 2]
    unmask_dispatches_at_most_once [of 1 "ex_state True True True True" 2]
    unmask_dispatches_at_most_once [of 1 "ex_state False True True True" 2]
    unmask_dispatches_at_most_once [of 1 "ex_state True True False True" 2]
  by (simp add: ex_defs run_defs)

text \<open>
  The statement of the specification fails on a state that calls of the facility reach:
  mask timer 0, deliver an expiry, unmask (no handler yet, so \<open>pending\<close> stays), start the
  timer with a handler. The timer is unmasked, and unmasking it dispatches the handler.
\<close>

theorem unmask_twice_counterexample:
  "run os_ok drv_ok [Timer_Irq_Disable 0, Timer_Expiry 0, Timer_Irq_Enable 0,
       Timer_Start 0 100 ex_timer_irq] (hal_boot 2) = Inr ex_stale
   \<and> \<not> lp_timer_t.blocked (lptim ex_stale ! 0)
   \<and> hal_lp_timer_irq_enable 0 ex_stale =
       Inr (ex_stale\<lparr>lptim := [lptim_zero\<lparr>tmr_irq := ex_timer_irq\<rparr>, lptim_zero],
              dispatched := [Dispatch (Timer_Slot 0) 9 7]\<rparr>)
   \<and> hal_lp_timer_irq_enable 0 ex_stale \<noteq> Inr ex_stale"
  by (simp add: ex_defs run_defs ex_stale_def hal_boot_def HAL_LP_TIMER_NB_def replicate_2)

text \<open>
  C6. A notification delivered while the slot is unmasked dispatches the attached handler
  at once and leaves \<open>pending\<close> as it is; delivered while the slot is masked it sets
  \<open>pending\<close> and dispatches nothing. For the timer slots (\<^verbatim>\<open>pl_timer_handler\<close>) and the pin
  slots (\<^verbatim>\<open>gpio_irq_callback\<close>).
\<close>

theorem notify_gate:
  "(tid < length (lptim s) \<longrightarrow>
      (\<exists>s'. pl_timer_handler (int tid) s = Inr s' \<and> gpio s' = gpio s \<and>
         (if lp_timer_t.blocked (lptim s ! tid)
          then lptim s' = (lptim s)[tid := (lptim s ! tid)\<lparr>lp_timer_t.pending := True\<rparr>] \<and>
               dispatched s' = dispatched s
          else lptim s' = lptim s \<and>
               dispatched s' = dispatched s @ timer_dispatch tid (lptim s ! tid))))
   \<and> (unat (ucast (p - 2) :: 8 word) < P_NUM s \<longrightarrow>
      (\<exists>s'. gpio_irq_callback p level tick s = Inr s' \<and> lptim s' = lptim s \<and>
         (let i = unat (ucast (p - 2) :: 8 word)
          in if gpio_t.blocked (gpio s ! i)
             then gpio s' = (gpio s)[i := (gpio s ! i)\<lparr>gpio_t.pending := True\<rparr>] \<and>
                  dispatched s' = dispatched s
             else gpio s' = gpio s \<and>
                  dispatched s' = dispatched s @ pin_dispatch (irq_mem s) i (gpio s ! i))))"
proof (intro conjI impI)
  assume t: "tid < length (lptim s)"
  show "\<exists>s'. pl_timer_handler (int tid) s = Inr s' \<and> gpio s' = gpio s \<and>
         (if lp_timer_t.blocked (lptim s ! tid)
          then lptim s' = (lptim s)[tid := (lptim s ! tid)\<lparr>lp_timer_t.pending := True\<rparr>] \<and>
               dispatched s' = dispatched s
          else lptim s' = lptim s \<and>
               dispatched s' = dispatched s @ timer_dispatch tid (lptim s ! tid))"
  proof (cases "lp_timer_t.blocked (lptim s ! tid)")
    case True
    then show ?thesis using pl_timer_handler_masked [OF t True] by simp
  next
    case False
    then show ?thesis using pl_timer_handler_unmasked [OF t False] by simp
  qed
next
  assume i: "unat (ucast (p - 2) :: 8 word) < P_NUM s"
  let ?i = "unat (ucast (p - 2) :: 8 word)"
  show "\<exists>s'. gpio_irq_callback p level tick s = Inr s' \<and> lptim s' = lptim s \<and>
         (let i = unat (ucast (p - 2) :: 8 word)
          in if gpio_t.blocked (gpio s ! i)
             then gpio s' = (gpio s)[i := (gpio s ! i)\<lparr>gpio_t.pending := True\<rparr>] \<and>
                  dispatched s' = dispatched s
             else gpio s' = gpio s \<and>
                  dispatched s' = dispatched s @ pin_dispatch (irq_mem s) i (gpio s ! i))"
  proof (cases "gpio_t.blocked (gpio s ! ?i)")
    case True
    then show ?thesis using gpio_irq_callback_masked [OF refl i True] by (simp add: Let_def)
  next
    case False
    then show ?thesis using gpio_irq_callback_unmasked [OF refl i False] by (simp add: Let_def)
  qed
qed

theorem notify_gate_witness:
  "(1::nat) < length (lptim (ex_state True False True False)) \<and>
   unat (ucast ((4 :: 32 word) - 2) :: 8 word) < P_NUM (ex_state True False True False) \<and>
   pl_timer_handler 1 (ex_state True False True False) = Inr (ex_state True True True False) \<and>
   gpio_irq_callback 4 1 0 (ex_state True False True False) =
     Inr (ex_state True False True True) \<and>
   pl_timer_handler 1 (ex_state False False False False) =
     Inr ((ex_state False False False False)\<lparr>dispatched := [Dispatch (Timer_Slot 1) 9 7]\<rparr>) \<and>
   gpio_irq_callback 4 1 0 (ex_state False False False False) =
     Inr ((ex_state False False False False)\<lparr>dispatched := [Dispatch (Pin_Slot 2) 6 5]\<rparr>)"
  using notify_gate [of 1 "ex_state True False True False" 4 1 0]
    notify_gate [of 1 "ex_state False False False False" 4 1 0]
  by (simp add: ex_defs pl_timer_handler_def gpio_irq_callback_def Let_def)

text \<open>
  C7. When \<^verbatim>\<open>hal_lp_timer_stop\<close> has returned, the slot's callback and context are null.
  Whatever calls follow (expiry notifications, maskings and unmaskings, starts, calls on
  the pins), as long as none of them starts the timer with the old handler again, the
  timer never dispatches the old handler; in particular not when the timer is started
  again at once with a new handler.
\<close>

theorem stop_detaches_handler:
  assumes "hal_lp_timer_stop os tid s = Inr s1"
    and "old \<notin> set (started_on tid cs)"
    and "run os' drv cs s1 = Inr s2"
  shows "tmr_irq (lptim s1 ! tid) =
           \<lparr>hal_lp_timer_irq_t.cb_context = NULL, hal_lp_timer_irq_t.callback = NULL\<rparr> \<and>
         (\<exists>ds. dispatched s2 = dispatched s1 @ ds \<and>
            Dispatch (Timer_Slot tid) (hal_lp_timer_irq_t.callback old)
              (hal_lp_timer_irq_t.cb_context old) \<notin> set ds)"
  using stop_result(2) [OF assms(1)]
    run_steps [OF assms(3) stop_result(3) [OF assms(1)] assms(2)]
  by (simp add: old_dispatch_def)

theorem stop_detaches_handler_witness:
  "hal_lp_timer_stop os_ok 1 (ex_state False False False False) =
     Inr ((ex_state False False False False)\<lparr>lptim := [lptim_zero, lptim_zero]\<rparr>)
   \<and> ex_timer_irq \<notin> set (started_on 1 ex_restart)
   \<and> run os_ok drv_ok ex_restart
       ((ex_state False False False False)\<lparr>lptim := [lptim_zero, lptim_zero]\<rparr>) =
     Inr ((ex_state False False False False)
       \<lparr>lptim := [lptim_zero, lptim_zero\<lparr>tmr_irq := ex_new_irq\<rparr>],
        dispatched := [Dispatch (Timer_Slot 1) 10 8, Dispatch (Timer_Slot 1) 10 8]\<rparr>)
   \<and> Dispatch (Timer_Slot 1) 9 7 \<notin>
       set [Dispatch (Timer_Slot 1) 10 8, Dispatch (Timer_Slot 1) 10 8]"
proof -
  let ?s = "ex_state False False False False"
  let ?s1 = "?s\<lparr>lptim := [lptim_zero, lptim_zero]\<rparr>"
  let ?s2 = "?s\<lparr>lptim := [lptim_zero, lptim_zero\<lparr>tmr_irq := ex_new_irq\<rparr>],
        dispatched := [Dispatch (Timer_Slot 1) 10 8, Dispatch (Timer_Slot 1) 10 8]\<rparr>"
  have h1: "hal_lp_timer_stop os_ok 1 ?s = Inr ?s1"
    by (simp add: ex_defs run_defs)
  have h2: "ex_timer_irq \<notin> set (started_on 1 ex_restart)"
    by (simp add: ex_restart_def ex_timer_irq_def ex_new_irq_def)
  have h3: "run os_ok drv_ok ex_restart ?s1 = Inr ?s2"
    by (simp add: ex_restart_def ex_new_irq_def ex_defs run_defs)
  from stop_detaches_handler [OF h1 h2 h3] h1 h2 h3
  show ?thesis by (simp add: ex_timer_irq_def)
qed




text \<open>
  C9. \<^verbatim>\<open>hal_gpio_clear_pending_irq(pin)\<close> clears the pending flag of every pin slot, and
  nothing else; the pin passed has no effect on the result.
\<close>

theorem clear_pending_irq_clears_every_slot:
  "hal_gpio_clear_pending_irq p s =
     s\<lparr>gpio := map (\<lambda>g. g\<lparr>gpio_t.pending := False\<rparr>) (gpio s)\<rparr>
   \<and> hal_gpio_clear_pending_irq p s = hal_gpio_clear_pending_irq p' s"
  unfolding hal_gpio_clear_pending_irq_def by (subst clear_pending_loop_eq) simp

text \<open>
  C10. After the argument parsing of \<^verbatim>\<open>main\<close>, for every command line and whatever
  \<^verbatim>\<open>atoi\<close> returns, the uplink period is at least 1 and the packet size lies between 1 and
  222: a value below 1 becomes 1, a packet size above 222 becomes 222, and an argument
  that is absent leaves the default (60 s, 12 bytes).
\<close>

theorem parsed_arguments_in_range:
  "1 \<le> unat (g_uplink_period_s (main_parse_args atoi argv globals_init))
   \<and> 1 \<le> unat (g_packet_size (main_parse_args atoi argv globals_init))
   \<and> unat (g_packet_size (main_parse_args atoi argv globals_init)) \<le> 222
   \<and> g_uplink_period_s (main_parse_args atoi argv globals_init) =
       (if length argv < 2 then 60
        else if sint (atoi (argv ! 1)) < 1 then 1 else atoi (argv ! 1))
   \<and> uint (g_packet_size (main_parse_args atoi argv globals_init)) =
       (if length argv < 3 then 12
        else if sint (atoi (argv ! 2)) < 1 then 1
        else if 222 < sint (atoi (argv ! 2)) then 222 else sint (atoi (argv ! 2)))"
proof -
  let ?g = "main_parse_args atoi argv globals_init"
  have p: "g_uplink_period_s ?g =
       (if length argv < 2 then 60
        else if sint (atoi (argv ! 1)) < 1 then 1 else atoi (argv ! 1))"
    by (simp add: main_parse_args_def globals_init_def Let_def)
  have s0: "g_packet_size ?g = (if length argv < 3 then 12 else clamp_size (atoi (argv ! 2)))"
    by (simp add: main_parse_args_def globals_init_def Let_def clamp_size_def)
  have s: "uint (g_packet_size ?g) =
       (if length argv < 3 then 12
        else if sint (atoi (argv ! 2)) < 1 then 1
        else if 222 < sint (atoi (argv ! 2)) then 222 else sint (atoi (argv ! 2)))"
    by (simp add: s0 clamp_size_cases)
  have p1: "1 \<le> unat (g_uplink_period_s ?g)"
    using sint_pos_unat [of "atoi (argv ! 1)"] by (simp add: p)
  have "1 \<le> uint (g_packet_size ?g) \<and> uint (g_packet_size ?g) \<le> 222"
    by (simp add: s)
  moreover have "uint (g_packet_size ?g) = int (unat (g_packet_size ?g))"
    by simp
  ultimately have s1: "1 \<le> unat (g_packet_size ?g)" "unat (g_packet_size ?g) \<le> 222"
    by linarith+
  from p1 s1 p s show ?thesis by blast
qed

end
